theory Spec2Isabelle
  imports Main "HOL-Library.AList" "HOL-Library.Sublist"
begin

section \<open>Values, exceptions and the remote side\<close>

text \<open>
  The client is loosely typed: what a remote call returns may be an identifier, a
  boolean, a list or a mapping. \<open>pyval\<close> is the universe of those values (the values
  XML-RPC and JSON can carry, floating-point numbers left out). A dictionary is an
  association list in insertion order, its keys pairwise different.
\<close>

datatype pyval =
    PNone
  | PBool bool
  | PInt int
  | PStr string
  | PList "pyval list"
  | PDict "(string \<times> pyval) list"

text \<open>Python's truth test, as used by \<^verbatim>\<open>if x:\<close> and \<^verbatim>\<open>not x\<close>.\<close>

fun truthy :: "pyval \<Rightarrow> bool" where
  "truthy PNone = False"
| "truthy (PBool b) = b"
| "truthy (PInt i) = (i \<noteq> 0)"
| "truthy (PStr s) = (s \<noteq> [])"
| "truthy (PList xs) = (xs \<noteq> [])"
| "truthy (PDict kvs) = (kvs \<noteq> [])"

text \<open>
  Exceptions. \<open>TransportError\<close> stands for whatever the transport raises (network
  failure, XML-RPC fault, malformed response), with its message; \<open>JSONDecodeError\<close> is
  what the JSON reader raises on a text it cannot read; the others are the exceptions
  Python itself raises on the values above.
\<close>

datatype exn = TypeError | KeyError | IndexError | AttributeError | JSONDecodeError | TransportError string

text \<open>\<^verbatim>\<open>len(x)\<close>: defined on strings, lists and dictionaries, a TypeError elsewhere.\<close>

fun py_len :: "pyval \<Rightarrow> exn + nat" where
  "py_len (PStr s) = Inr (length s)"
| "py_len (PList xs) = Inr (length xs)"
| "py_len (PDict kvs) = Inr (length kvs)"
| "py_len PNone = Inl TypeError"
| "py_len (PBool b) = Inl TypeError"
| "py_len (PInt i) = Inl TypeError"

text \<open>\<^verbatim>\<open>x[0]\<close>: the first element of a list or string; a dictionary has string keys only.\<close>

fun py_item0 :: "pyval \<Rightarrow> exn + pyval" where
  "py_item0 (PList []) = Inl IndexError"
| "py_item0 (PList (x # xs)) = Inr x"
| "py_item0 (PStr []) = Inl IndexError"
| "py_item0 (PStr (c # cs)) = Inr (PStr [c])"
| "py_item0 (PDict kvs) = Inl KeyError"
| "py_item0 PNone = Inl TypeError"
| "py_item0 (PBool b) = Inl TypeError"
| "py_item0 (PInt i) = Inl TypeError"

text \<open>\<^verbatim>\<open>x[key]\<close> with a string key: a dictionary lookup, a TypeError on anything else.\<close>

fun py_getitem :: "pyval \<Rightarrow> string \<Rightarrow> exn + pyval" where
  "py_getitem (PDict kvs) k = (case map_of kvs k of None \<Rightarrow> Inl KeyError | Some v \<Rightarrow> Inr v)"
| "py_getitem PNone k = Inl TypeError"
| "py_getitem (PBool b) k = Inl TypeError"
| "py_getitem (PInt i) k = Inl TypeError"
| "py_getitem (PStr s) k = Inl TypeError"
| "py_getitem (PList xs) k = Inl TypeError"

fun contains_str :: "string \<Rightarrow> string \<Rightarrow> bool" where
  "contains_str k [] = (k = [])"
| "contains_str k (c # cs) = (prefix k (c # cs) \<or> contains_str k cs)"

text \<open>
  \<^verbatim>\<open>key in x\<close> with a string key: key membership in a dictionary, element membership in
  a list, substring test on a string, a TypeError on anything else.
\<close>

fun py_in :: "string \<Rightarrow> pyval \<Rightarrow> exn + bool" where
  "py_in k (PDict kvs) = Inr (k \<in> set (map fst kvs))"
| "py_in k (PList xs) = Inr (PStr k \<in> set xs)"
| "py_in k (PStr s) = Inr (contains_str k s)"
| "py_in k PNone = Inl TypeError"
| "py_in k (PBool b) = Inl TypeError"
| "py_in k (PInt i) = Inl TypeError"

text \<open>
  The remote side. A proxy is an \<^verbatim>\<open>xmlrpc.client.ServerProxy\<close> bound to an address. A
  request is one call that leaves the process.
\<close>

datatype proxy = ServerProxy string

datatype request =
    Authenticate proxy string string string
  | ExecuteKw proxy string pyval string string string "pyval list"
  | HttpPost string pyval "(string \<times> string) list"

text \<open>
  \<open>Authenticate p db username password\<close> is \<^verbatim>\<open>p.authenticate(db, username, password, {})\<close>;
  \<open>ExecuteKw p db uid password model method args\<close> is
  \<^verbatim>\<open>p.execute_kw(db, uid, password, model, method, args)\<close>;
  \<open>HttpPost url payload cookies\<close> is
  \<^verbatim>\<open>requests.post(url, data=json.dumps(payload), headers=..., cookies=cookies)\<close>.
\<close>

record http_response =
  status_code :: int
  json :: "exn + pyval"
  cookies :: "(string \<times> string) list"

text \<open>
  The transport is everything outside the process. Its answer to a request may depend on
  all requests sent before (the history), so a remote server with state, a network that
  fails now and then, and the clock are all instances. Creating a proxy sends nothing; it
  raises on an address it does not support.
\<close>

record transport =
  server_proxy :: "string \<Rightarrow> exn + proxy"
  xmlrpc_call :: "request list \<Rightarrow> request \<Rightarrow> exn + pyval"
  requests_post :: "request list \<Rightarrow> request \<Rightarrow> exn + http_response"
  time_time :: "request list \<Rightarrow> int"

section \<open>The RPC session\<close>

record session =
  url :: string
  db :: string
  username :: string
  password :: string
  uid :: pyval
  xmlrpc_common :: "proxy option"
  xmlrpc_models :: "proxy option"
  jsonrpc_url :: string
  session_id :: "string option"

text \<open>A state is the session object together with the requests sent so far.\<close>

type_synonym state = "session \<times> request list"

definition rstrip_slash :: "string \<Rightarrow> string" where
  "rstrip_slash u = rev (dropWhile (\<lambda>c. c = CHR ''/'') (rev u))"

definition OdooAPI_init :: "string \<Rightarrow> string \<Rightarrow> string \<Rightarrow> string \<Rightarrow> session" where
  "OdooAPI_init u d un pw =
     \<lparr> url = rstrip_slash u, db = d, username = un, password = pw, uid = PNone,
       xmlrpc_common = None, xmlrpc_models = None,
       jsonrpc_url = rstrip_slash u @ ''/jsonrpc'', session_id = None \<rparr>"

text \<open>
  \<^verbatim>\<open>try: body  except Exception: return sentinel\<close>. The body has run up to the raise, so
  the state it reached is kept. A result \<open>Inl e\<close> of an operation would be an exception
  that reaches its caller.
\<close>

definition try_except :: "(state \<Rightarrow> (exn + 'a) \<times> state) \<Rightarrow> 'a \<Rightarrow> state \<Rightarrow> (exn + 'a) \<times> state" where
  "try_except body sentinel st =
     (case body st of
        (Inl e, st') \<Rightarrow> (Inr sentinel, st')
      | (Inr v, st') \<Rightarrow> (Inr v, st'))"

subsection \<open>authenticate\<close>

definition xmlrpc_authenticate_body :: "transport \<Rightarrow> state \<Rightarrow> (exn + bool) \<times> state" where
  "xmlrpc_authenticate_body tr st =
     (case st of (s, h) \<Rightarrow>
        (case server_proxy tr (url s @ ''/xmlrpc/2/common'') of
           Inl e \<Rightarrow> (Inl e, (s, h))
         | Inr p \<Rightarrow>
             (let s1 = s\<lparr>xmlrpc_common := Some p\<rparr>;
                  req = Authenticate p (db s1) (username s1) (password s1);
                  h1 = h @ [req]
              in case xmlrpc_call tr h req of
                   Inl e \<Rightarrow> (Inl e, (s1, h1))
                 | Inr v \<Rightarrow>
                     (let s2 = s1\<lparr>uid := v\<rparr>
                      in if truthy (uid s2)
                         then (case server_proxy tr (url s2 @ ''/xmlrpc/2/object'') of
                                 Inl e \<Rightarrow> (Inl e, (s2, h1))
                               | Inr q \<Rightarrow> (Inr True, (s2\<lparr>xmlrpc_models := Some q\<rparr>, h1)))
                         else (Inr False, (s2, h1))))))"

definition xmlrpc_authenticate :: "transport \<Rightarrow> state \<Rightarrow> (exn + bool) \<times> state" where
  "xmlrpc_authenticate tr = try_except (xmlrpc_authenticate_body tr) False"

definition login_payload :: "session \<Rightarrow> pyval" where
  "login_payload s =
     PDict [(''jsonrpc'', PStr ''2.0''),
            (''method'', PStr ''call''),
            (''params'', PDict [(''service'', PStr ''common''),
                               (''method'', PStr ''login''),
                               (''args'', PList [PStr (db s), PStr (username s), PStr (password s)])]),
            (''id'', PInt 1)]"

definition jsonrpc_authenticate_body :: "transport \<Rightarrow> state \<Rightarrow> (exn + bool) \<times> state" where
  "jsonrpc_authenticate_body tr st =
     (case st of (s, h) \<Rightarrow>
        (let req = HttpPost (jsonrpc_url s) (login_payload s) [];
             h1 = h @ [req]
         in case requests_post tr h req of
              Inl e \<Rightarrow> (Inl e, (s, h1))
            | Inr response \<Rightarrow>
                if status_code response = 200
                then (case json response of
                        Inl e \<Rightarrow> (Inl e, (s, h1))
                      | Inr result \<Rightarrow>
                          (case py_in ''result'' result of
                             Inl e \<Rightarrow> (Inl e, (s, h1))
                           | Inr False \<Rightarrow> (Inr False, (s, h1))
                           | Inr True \<Rightarrow>
                               (case py_getitem result ''result'' of
                                  Inl e \<Rightarrow> (Inl e, (s, h1))
                                | Inr r \<Rightarrow>
                                    if truthy r
                                    then (Inr True,
                                          (s\<lparr>uid := r,
                                             session_id := map_of (cookies response) ''session_id''\<rparr>,
                                           h1))
                                    else (Inr False, (s, h1)))))
                else (Inr False, (s, h1))))"

definition jsonrpc_authenticate :: "transport \<Rightarrow> state \<Rightarrow> (exn + bool) \<times> state" where
  "jsonrpc_authenticate tr = try_except (jsonrpc_authenticate_body tr) False"

subsection \<open>execute\<close>

text \<open>Lines 157 to 160: the remote method call itself, on the models proxy.\<close>

definition xmlrpc_dispatch :: "transport \<Rightarrow> string \<Rightarrow> string \<Rightarrow> pyval list \<Rightarrow> state \<Rightarrow> (exn + pyval) \<times> state" where
  "xmlrpc_dispatch tr model method args st =
     (case st of (s, h) \<Rightarrow>
        (case xmlrpc_models s of
           None \<Rightarrow> (Inl AttributeError, (s, h))
         | Some q \<Rightarrow>
             (let req = ExecuteKw q (db s) (uid s) (password s) model method args
              in (xmlrpc_call tr h req, (s, h @ [req])))))"

definition xmlrpc_execute_body :: "transport \<Rightarrow> string \<Rightarrow> string \<Rightarrow> pyval list \<Rightarrow> state \<Rightarrow> (exn + pyval) \<times> state" where
  "xmlrpc_execute_body tr model method args st =
     (if \<not> truthy (uid (fst st)) \<or> xmlrpc_models (fst st) = None
      then (case xmlrpc_authenticate tr st of
              (Inl e, st1) \<Rightarrow> (Inl e, st1)
            | (Inr ok, st1) \<Rightarrow>
                if \<not> ok then (Inr PNone, st1)
                else xmlrpc_dispatch tr model method args st1)
      else xmlrpc_dispatch tr model method args st)"

definition xmlrpc_execute :: "transport \<Rightarrow> string \<Rightarrow> string \<Rightarrow> pyval list \<Rightarrow> state \<Rightarrow> (exn + pyval) \<times> state" where
  "xmlrpc_execute tr model method args = try_except (xmlrpc_execute_body tr model method args) PNone"

definition execute_payload :: "transport \<Rightarrow> string \<Rightarrow> string \<Rightarrow> pyval list \<Rightarrow> state \<Rightarrow> pyval" where
  "execute_payload tr model method args st =
     PDict [(''jsonrpc'', PStr ''2.0''),
            (''method'', PStr ''call''),
            (''params'', PDict [(''service'', PStr ''object''),
                               (''method'', PStr ''execute_kw''),
                               (''args'', PList [PStr (db (fst st)), uid (fst st), PStr (password (fst st)),
                                                PStr model, PStr method, PList args])]),
            (''id'', PInt (time_time tr (snd st)))]"

text \<open>Lines 194 to 196: the cookie jar of the call holds the session token when there is one.\<close>

definition session_cookies :: "session \<Rightarrow> (string \<times> string) list" where
  "session_cookies s =
     (case session_id s of
        None \<Rightarrow> []
      | Some sid \<Rightarrow> if sid \<noteq> [] then [(''session_id'', sid)] else [])"

text \<open>Lines 183 to 214: the remote method call as an HTTP post, and the reading of its answer.\<close>

definition jsonrpc_dispatch :: "transport \<Rightarrow> string \<Rightarrow> string \<Rightarrow> pyval list \<Rightarrow> state \<Rightarrow> (exn + pyval) \<times> state" where
  "jsonrpc_dispatch tr model method args st =
     (case st of (s, h) \<Rightarrow>
        (let payload = execute_payload tr model method args (s, h);
             req = HttpPost (jsonrpc_url s) payload (session_cookies s);
             h1 = h @ [req]
         in case requests_post tr h req of
              Inl e \<Rightarrow> (Inl e, (s, h1))
            | Inr response \<Rightarrow>
                if status_code response = 200
                then (case json response of
                        Inl e \<Rightarrow> (Inl e, (s, h1))
                      | Inr result \<Rightarrow>
                          (case py_in ''result'' result of
                             Inl e \<Rightarrow> (Inl e, (s, h1))
                           | Inr True \<Rightarrow> (py_getitem result ''result'', (s, h1))
                           | Inr False \<Rightarrow>
                               (case py_in ''error'' result of
                                  Inl e \<Rightarrow> (Inl e, (s, h1))
                                | Inr True \<Rightarrow> (Inr PNone, (s, h1))
                                | Inr False \<Rightarrow> (Inr PNone, (s, h1)))))
                else (Inr PNone, (s, h1))))"

definition jsonrpc_execute_body :: "transport \<Rightarrow> string \<Rightarrow> string \<Rightarrow> pyval list \<Rightarrow> state \<Rightarrow> (exn + pyval) \<times> state" where
  "jsonrpc_execute_body tr model method args st =
     (if \<not> truthy (uid (fst st))
      then (case jsonrpc_authenticate tr st of
              (Inl e, st1) \<Rightarrow> (Inl e, st1)
            | (Inr ok, st1) \<Rightarrow>
                if \<not> ok then (Inr PNone, st1)
                else jsonrpc_dispatch tr model method args st1)
      else jsonrpc_dispatch tr model method args st)"

definition jsonrpc_execute :: "transport \<Rightarrow> string \<Rightarrow> string \<Rightarrow> pyval list \<Rightarrow> state \<Rightarrow> (exn + pyval) \<times> state" where
  "jsonrpc_execute tr model method args = try_except (jsonrpc_execute_body tr model method args) PNone"

section \<open>Derived operations\<close>

text \<open>
  Every derived operation exists twice in the source, once per transport, with the same
  body up to the execute it calls. The model writes each body once, over the execute
  \<open>exec\<close>, and instantiates it for both transports below. Log lines are not modelled: a
  test that only selects a log line does not appear.
\<close>

type_synonym execute = "string \<Rightarrow> string \<Rightarrow> pyval list \<Rightarrow> state \<Rightarrow> (exn + pyval) \<times> state"

subsection \<open>Single records\<close>

definition create_lead_body :: "execute \<Rightarrow> pyval \<Rightarrow> state \<Rightarrow> (exn + pyval) \<times> state" where
  "create_lead_body exec lead_data st = exec ''crm.lead'' ''create'' [PList [lead_data]] st"

definition create_lead :: "execute \<Rightarrow> pyval \<Rightarrow> state \<Rightarrow> (exn + pyval) \<times> state" where
  "create_lead exec lead_data = try_except (create_lead_body exec lead_data) PNone"

definition read_lead_body :: "execute \<Rightarrow> int \<Rightarrow> pyval \<Rightarrow> state \<Rightarrow> (exn + pyval) \<times> state" where
  "read_lead_body exec lead_id field_names st =
     (let fields1 = (if field_names = PNone then PList [] else field_names)
      in case exec ''crm.lead'' ''read'' [PList [PInt lead_id], PDict [(''fields'', fields1)]] st of
           (Inl e, st1) \<Rightarrow> (Inl e, st1)
         | (Inr lead_data, st1) \<Rightarrow>
             if truthy lead_data
             then (case py_len lead_data of
                     Inl e \<Rightarrow> (Inl e, st1)
                   | Inr n \<Rightarrow> if n > 0 then (py_item0 lead_data, st1) else (Inr PNone, st1))
             else (Inr PNone, st1))"

definition read_lead :: "execute \<Rightarrow> int \<Rightarrow> pyval \<Rightarrow> state \<Rightarrow> (exn + pyval) \<times> state" where
  "read_lead exec lead_id field_names = try_except (read_lead_body exec lead_id field_names) PNone"

definition update_lead_body :: "execute \<Rightarrow> int \<Rightarrow> pyval \<Rightarrow> state \<Rightarrow> (exn + pyval) \<times> state" where
  "update_lead_body exec lead_id lead_data st = exec ''crm.lead'' ''write'' [PList [PInt lead_id], lead_data] st"

definition update_lead :: "execute \<Rightarrow> int \<Rightarrow> pyval \<Rightarrow> state \<Rightarrow> (exn + pyval) \<times> state" where
  "update_lead exec lead_id lead_data = try_except (update_lead_body exec lead_id lead_data) (PBool False)"

definition delete_lead_body :: "execute \<Rightarrow> int \<Rightarrow> state \<Rightarrow> (exn + pyval) \<times> state" where
  "delete_lead_body exec lead_id st = exec ''crm.lead'' ''unlink'' [PList [PInt lead_id]] st"

definition delete_lead :: "execute \<Rightarrow> int \<Rightarrow> state \<Rightarrow> (exn + pyval) \<times> state" where
  "delete_lead exec lead_id = try_except (delete_lead_body exec lead_id) (PBool False)"

subsection \<open>Search\<close>

text \<open>
  \<^verbatim>\<open>kwargs[k] = v\<close> is \<open>AList.update k v kwargs\<close>: the value is replaced in place when the
  key is there and appended otherwise. The three tests are truth tests. The defaults of
  the optional parameters are \<open>offset = PInt 0\<close>, \<open>limit = PNone\<close>, \<open>order = PNone\<close>, and
  \<open>field_names = PNone\<close> (the source's \<^verbatim>\<open>fields\<close>).
\<close>

definition set_optionals :: "pyval \<Rightarrow> pyval \<Rightarrow> pyval \<Rightarrow> (string \<times> pyval) list \<Rightarrow> (string \<times> pyval) list" where
  "set_optionals offset limit order kwargs =
     (let k1 = (if truthy offset then AList.update ''offset'' offset kwargs else kwargs);
          k2 = (if truthy limit then AList.update ''limit'' limit k1 else k1);
          k3 = (if truthy order then AList.update ''order'' order k2 else k2)
      in k3)"

definition search_kwargs :: "pyval \<Rightarrow> pyval \<Rightarrow> pyval \<Rightarrow> (string \<times> pyval) list" where
  "search_kwargs offset limit order = set_optionals offset limit order []"

definition search_read_kwargs :: "pyval \<Rightarrow> pyval \<Rightarrow> pyval \<Rightarrow> pyval \<Rightarrow> (string \<times> pyval) list" where
  "search_read_kwargs field_names offset limit order =
     set_optionals offset limit order [(''fields'', if field_names = PNone then PList [] else field_names)]"

text \<open>The count of the result is taken for the log line only, but it raises on a value without a length.\<close>

definition counted :: "(exn + pyval) \<times> state \<Rightarrow> (exn + pyval) \<times> state" where
  "counted r =
     (case r of
        (Inl e, st1) \<Rightarrow> (Inl e, st1)
      | (Inr found, st1) \<Rightarrow>
          (case py_len found of
             Inl e \<Rightarrow> (Inl e, st1)
           | Inr n \<Rightarrow> (Inr found, st1)))"

definition search_leads_body :: "execute \<Rightarrow> pyval \<Rightarrow> pyval \<Rightarrow> pyval \<Rightarrow> pyval \<Rightarrow> state \<Rightarrow> (exn + pyval) \<times> state" where
  "search_leads_body exec domain offset limit order st =
     counted (exec ''crm.lead'' ''search'' [domain, PDict (search_kwargs offset limit order)] st)"

definition search_leads :: "execute \<Rightarrow> pyval \<Rightarrow> pyval \<Rightarrow> pyval \<Rightarrow> pyval \<Rightarrow> state \<Rightarrow> (exn + pyval) \<times> state" where
  "search_leads exec domain offset limit order =
     try_except (search_leads_body exec domain offset limit order) (PList [])"

definition search_read_leads_body :: "execute \<Rightarrow> pyval \<Rightarrow> pyval \<Rightarrow> pyval \<Rightarrow> pyval \<Rightarrow> pyval \<Rightarrow> state \<Rightarrow> (exn + pyval) \<times> state" where
  "search_read_leads_body exec domain field_names offset limit order st =
     counted (exec ''crm.lead'' ''search_read'' [domain, PDict (search_read_kwargs field_names offset limit order)] st)"

definition search_read_leads :: "execute \<Rightarrow> pyval \<Rightarrow> pyval \<Rightarrow> pyval \<Rightarrow> pyval \<Rightarrow> pyval \<Rightarrow> state \<Rightarrow> (exn + pyval) \<times> state" where
  "search_read_leads exec domain field_names offset limit order =
     try_except (search_read_leads_body exec domain field_names offset limit order) (PList [])"

subsection \<open>Batches\<close>

text \<open>
  Each loop takes the accumulator (\<open>lead_ids\<close>, \<open>results\<close>) as an argument. A call that
  raised would leave the loop at once; the branch is there although no single-record
  operation raises.
\<close>

fun create_leads_loop :: "execute \<Rightarrow> pyval list \<Rightarrow> pyval list \<Rightarrow> state \<Rightarrow> (exn + pyval list) \<times> state" where
  "create_leads_loop exec [] lead_ids st = (Inr lead_ids, st)"
| "create_leads_loop exec (lead_data # rest) lead_ids st =
     (case create_lead exec lead_data st of
        (Inl e, st1) \<Rightarrow> (Inl e, st1)
      | (Inr lead_id, st1) \<Rightarrow>
          create_leads_loop exec rest (if truthy lead_id then lead_ids @ [lead_id] else lead_ids) st1)"

definition create_leads_batch :: "execute \<Rightarrow> pyval list \<Rightarrow> state \<Rightarrow> (exn + pyval list) \<times> state" where
  "create_leads_batch exec leads_data = try_except (create_leads_loop exec leads_data []) []"

text \<open>
  The updates are a dictionary from identifier to data: its items, in order, with
  pairwise different identifiers. The result is a dictionary too.
\<close>

fun update_leads_loop :: "execute \<Rightarrow> (int \<times> pyval) list \<Rightarrow> (int \<times> pyval) list \<Rightarrow> state \<Rightarrow> (exn + (int \<times> pyval) list) \<times> state" where
  "update_leads_loop exec [] results st = (Inr results, st)"
| "update_leads_loop exec ((lead_id, update_data) # rest) results st =
     (case update_lead exec lead_id update_data st of
        (Inl e, st1) \<Rightarrow> (Inl e, st1)
      | (Inr success, st1) \<Rightarrow>
          update_leads_loop exec rest (AList.update lead_id success results) st1)"

definition update_leads_batch :: "execute \<Rightarrow> (int \<times> pyval) list \<Rightarrow> state \<Rightarrow> (exn + (int \<times> pyval) list) \<times> state" where
  "update_leads_batch exec leads_updates = try_except (update_leads_loop exec leads_updates []) []"

fun delete_leads_loop :: "execute \<Rightarrow> int list \<Rightarrow> (int \<times> pyval) list \<Rightarrow> state \<Rightarrow> (exn + (int \<times> pyval) list) \<times> state" where
  "delete_leads_loop exec [] results st = (Inr results, st)"
| "delete_leads_loop exec (lead_id # rest) results st =
     (case delete_lead exec lead_id st of
        (Inl e, st1) \<Rightarrow> (Inl e, st1)
      | (Inr success, st1) \<Rightarrow>
          delete_leads_loop exec rest (AList.update lead_id success results) st1)"

definition delete_leads_batch :: "execute \<Rightarrow> int list \<Rightarrow> state \<Rightarrow> (exn + (int \<times> pyval) list) \<times> state" where
  "delete_leads_batch exec lead_ids = try_except (delete_leads_loop exec lead_ids []) []"

text \<open>
  \<open>runs op items st\<close> is the yardstick for the batches: the operation \<open>op\<close> is run once on
  every item, in the order given and whatever the earlier runs returned, each run from
  the state the one before left. It gives what each run returned and the last state.
\<close>

fun runs :: "('a \<Rightarrow> state \<Rightarrow> (exn + pyval) \<times> state) \<Rightarrow> 'a list \<Rightarrow> state \<Rightarrow> (exn + pyval) list \<times> state" where
  "runs op [] st = ([], st)"
| "runs op (item # rest) st =
     (case op item st of
        (r, st1) \<Rightarrow> (case runs op rest st1 of (rs, st2) \<Rightarrow> (r # rs, st2)))"

subsection \<open>The operations of the class, per transport\<close>

definition create_lead_xmlrpc :: "transport \<Rightarrow> pyval \<Rightarrow> state \<Rightarrow> (exn + pyval) \<times> state" where
  "create_lead_xmlrpc tr = create_lead (xmlrpc_execute tr)"

definition create_lead_jsonrpc :: "transport \<Rightarrow> pyval \<Rightarrow> state \<Rightarrow> (exn + pyval) \<times> state" where
  "create_lead_jsonrpc tr = create_lead (jsonrpc_execute tr)"

definition read_lead_xmlrpc :: "transport \<Rightarrow> int \<Rightarrow> pyval \<Rightarrow> state \<Rightarrow> (exn + pyval) \<times> state" where
  "read_lead_xmlrpc tr = read_lead (xmlrpc_execute tr)"

definition read_lead_jsonrpc :: "transport \<Rightarrow> int \<Rightarrow> pyval \<Rightarrow> state \<Rightarrow> (exn + pyval) \<times> state" where
  "read_lead_jsonrpc tr = read_lead (jsonrpc_execute tr)"

definition update_lead_xmlrpc :: "transport \<Rightarrow> int \<Rightarrow> pyval \<Rightarrow> state \<Rightarrow> (exn + pyval) \<times> state" where
  "update_lead_xmlrpc tr = update_lead (xmlrpc_execute tr)"

definition update_lead_jsonrpc :: "transport \<Rightarrow> int \<Rightarrow> pyval \<Rightarrow> state \<Rightarrow> (exn + pyval) \<times> state" where
  "update_lead_jsonrpc tr = update_lead (jsonrpc_execute tr)"

definition delete_lead_xmlrpc :: "transport \<Rightarrow> int \<Rightarrow> state \<Rightarrow> (exn + pyval) \<times> state" where
  "delete_lead_xmlrpc tr = delete_lead (xmlrpc_execute tr)"

definition delete_lead_jsonrpc :: "transport \<Rightarrow> int \<Rightarrow> state \<Rightarrow> (exn + pyval) \<times> state" where
  "delete_lead_jsonrpc tr = delete_lead (jsonrpc_execute tr)"

definition search_leads_xmlrpc :: "transport \<Rightarrow> pyval \<Rightarrow> pyval \<Rightarrow> pyval \<Rightarrow> pyval \<Rightarrow> state \<Rightarrow> (exn + pyval) \<times> state" where
  "search_leads_xmlrpc tr = search_leads (xmlrpc_execute tr)"

definition search_leads_jsonrpc :: "transport \<Rightarrow> pyval \<Rightarrow> pyval \<Rightarrow> pyval \<Rightarrow> pyval \<Rightarrow> state \<Rightarrow> (exn + pyval) \<times> state" where
  "search_leads_jsonrpc tr = search_leads (jsonrpc_execute tr)"

definition search_read_leads_xmlrpc :: "transport \<Rightarrow> pyval \<Rightarrow> pyval \<Rightarrow> pyval \<Rightarrow> pyval \<Rightarrow> pyval \<Rightarrow> state \<Rightarrow> (exn + pyval) \<times> state" where
  "search_read_leads_xmlrpc tr = search_read_leads (xmlrpc_execute tr)"

definition search_read_leads_jsonrpc :: "transport \<Rightarrow> pyval \<Rightarrow> pyval \<Rightarrow> pyval \<Rightarrow> pyval \<Rightarrow> pyval \<Rightarrow> state \<Rightarrow> (exn + pyval) \<times> state" where
  "search_read_leads_jsonrpc tr = search_read_leads (jsonrpc_execute tr)"

definition create_leads_batch_xmlrpc :: "transport \<Rightarrow> pyval list \<Rightarrow> state \<Rightarrow> (exn + pyval list) \<times> state" where
  "create_leads_batch_xmlrpc tr = create_leads_batch (xmlrpc_execute tr)"

definition create_leads_batch_jsonrpc :: "transport \<Rightarrow> pyval list \<Rightarrow> state \<Rightarrow> (exn + pyval list) \<times> state" where
  "create_leads_batch_jsonrpc tr = create_leads_batch (jsonrpc_execute tr)"

definition update_leads_batch_xmlrpc :: "transport \<Rightarrow> (int \<times> pyval) list \<Rightarrow> state \<Rightarrow> (exn + (int \<times> pyval) list) \<times> state" where
  "update_leads_batch_xmlrpc tr = update_leads_batch (xmlrpc_execute tr)"

definition update_leads_batch_jsonrpc :: "transport \<Rightarrow> (int \<times> pyval) list \<Rightarrow> state \<Rightarrow> (exn + (int \<times> pyval) list) \<times> state" where
  "update_leads_batch_jsonrpc tr = update_leads_batch (jsonrpc_execute tr)"

definition delete_leads_batch_xmlrpc :: "transport \<Rightarrow> int list \<Rightarrow> state \<Rightarrow> (exn + (int \<times> pyval) list) \<times> state" where
  "delete_leads_batch_xmlrpc tr = delete_leads_batch (xmlrpc_execute tr)"

definition delete_leads_batch_jsonrpc :: "transport \<Rightarrow> int list \<Rightarrow> state \<Rightarrow> (exn + (int \<times> pyval) list) \<times> state" where
  "delete_leads_batch_jsonrpc tr = delete_leads_batch (jsonrpc_execute tr)"

subsection \<open>Sequences of operations on one session\<close>

datatype operation =
    Xmlrpc_authenticate
  | Jsonrpc_authenticate
  | Xmlrpc_execute string string "pyval list"
  | Jsonrpc_execute string string "pyval list"
  | Create_lead_xmlrpc pyval
  | Create_lead_jsonrpc pyval
  | Read_lead_xmlrpc int pyval
  | Read_lead_jsonrpc int pyval
  | Update_lead_xmlrpc int pyval
  | Update_lead_jsonrpc int pyval
  | Delete_lead_xmlrpc int
  | Delete_lead_jsonrpc int
  | Search_leads_xmlrpc pyval pyval pyval pyval
  | Search_leads_jsonrpc pyval pyval pyval pyval
  | Search_read_leads_xmlrpc pyval pyval pyval pyval pyval
  | Search_read_leads_jsonrpc pyval pyval pyval pyval pyval
  | Create_leads_batch_xmlrpc "pyval list"
  | Create_leads_batch_jsonrpc "pyval list"
  | Update_leads_batch_xmlrpc "(int \<times> pyval) list"
  | Update_leads_batch_jsonrpc "(int \<times> pyval) list"
  | Delete_leads_batch_xmlrpc "int list"
  | Delete_leads_batch_jsonrpc "int list"

text \<open>The state an operation leaves behind, whatever it returned.\<close>

fun run_op :: "transport \<Rightarrow> operation \<Rightarrow> state \<Rightarrow> state" where
  "run_op tr Xmlrpc_authenticate st = snd (xmlrpc_authenticate tr st)"
| "run_op tr Jsonrpc_authenticate st = snd (jsonrpc_authenticate tr st)"
| "run_op tr (Xmlrpc_execute model method args) st = snd (xmlrpc_execute tr model method args st)"
| "run_op tr (Jsonrpc_execute model method args) st = snd (jsonrpc_execute tr model method args st)"
| "run_op tr (Create_lead_xmlrpc lead_data) st = snd (create_lead_xmlrpc tr lead_data st)"
| "run_op tr (Create_lead_jsonrpc lead_data) st = snd (create_lead_jsonrpc tr lead_data st)"
| "run_op tr (Read_lead_xmlrpc lead_id field_names) st = snd (read_lead_xmlrpc tr lead_id field_names st)"
| "run_op tr (Read_lead_jsonrpc lead_id field_names) st = snd (read_lead_jsonrpc tr lead_id field_names st)"
| "run_op tr (Update_lead_xmlrpc lead_id lead_data) st = snd (update_lead_xmlrpc tr lead_id lead_data st)"
| "run_op tr (Update_lead_jsonrpc lead_id lead_data) st = snd (update_lead_jsonrpc tr lead_id lead_data st)"
| "run_op tr (Delete_lead_xmlrpc lead_id) st = snd (delete_lead_xmlrpc tr lead_id st)"
| "run_op tr (Delete_lead_jsonrpc lead_id) st = snd (delete_lead_jsonrpc tr lead_id st)"
| "run_op tr (Search_leads_xmlrpc domain offset limit order) st =
     snd (search_leads_xmlrpc tr domain offset limit order st)"
| "run_op tr (Search_leads_jsonrpc domain offset limit order) st =
     snd (search_leads_jsonrpc tr domain offset limit order st)"
| "run_op tr (Search_read_leads_xmlrpc domain field_names offset limit order) st =
     snd (search_read_leads_xmlrpc tr domain field_names offset limit order st)"
| "run_op tr (Search_read_leads_jsonrpc domain field_names offset limit order) st =
     snd (search_read_leads_jsonrpc tr domain field_names offset limit order st)"
| "run_op tr (Create_leads_batch_xmlrpc leads_data) st = snd (create_leads_batch_xmlrpc tr leads_data st)"
| "run_op tr (Create_leads_batch_jsonrpc leads_data) st = snd (create_leads_batch_jsonrpc tr leads_data st)"
| "run_op tr (Update_leads_batch_xmlrpc leads_updates) st = snd (update_leads_batch_xmlrpc tr leads_updates st)"
| "run_op tr (Update_leads_batch_jsonrpc leads_updates) st = snd (update_leads_batch_jsonrpc tr leads_updates st)"
| "run_op tr (Delete_leads_batch_xmlrpc lead_ids) st = snd (delete_leads_batch_xmlrpc tr lead_ids st)"
| "run_op tr (Delete_leads_batch_jsonrpc lead_ids) st = snd (delete_leads_batch_jsonrpc tr lead_ids st)"

fun run_ops :: "transport \<Rightarrow> operation list \<Rightarrow> state \<Rightarrow> state" where
  "run_ops tr [] st = st"
| "run_ops tr (op # ops) st = run_ops tr ops (run_op tr op st)"

text \<open>
  \<open>auth_reach tr s s'\<close>: the session \<open>s'\<close> is \<open>s\<close> after some number of runs of the two
  authenticate operations, and nothing else.
\<close>

inductive auth_reach :: "transport \<Rightarrow> session \<Rightarrow> session \<Rightarrow> bool" for tr :: transport where
  auth_reach_same: "auth_reach tr s s"
| auth_reach_xmlrpc: "auth_reach tr s s1 \<Longrightarrow> auth_reach tr s (fst (snd (xmlrpc_authenticate tr (s1, h))))"
| auth_reach_jsonrpc: "auth_reach tr s s1 \<Longrightarrow> auth_reach tr s (fst (snd (jsonrpc_authenticate tr (s1, h))))"

text \<open>
  The fields that the constructor sets from its arguments and that no method assigns.
\<close>

definition unchanged_fields :: "session \<Rightarrow> session \<Rightarrow> bool" where
  "unchanged_fields s s1 \<longleftrightarrow>
     url s1 = url s \<and> db s1 = db s \<and> username s1 = username s \<and> password s1 = password s
     \<and> jsonrpc_url s1 = jsonrpc_url s"

text \<open>
  \<open>keeps_session tr f\<close>: whatever \<open>f\<close> does to the session, authenticate runs alone could
  have done.
\<close>

definition keeps_session :: "transport \<Rightarrow> (state \<Rightarrow> 'a \<times> state) \<Rightarrow> bool" where
  "keeps_session tr f \<longleftrightarrow> (\<forall>s h. auth_reach tr s (fst (snd (f (s, h)))))"

section \<open>The lead-capture assistant: the extraction block\<close>

text \<open>
  \<^verbatim>\<open>re.search(r'\{.*\}', text, re.DOTALL)\<close> and \<^verbatim>\<open>match.group(0)\<close>. The search takes the
  leftmost match and the star is greedy and crosses line ends, so the match starts at the
  first opening brace and ends at the last closing brace after it; there is no match when
  no closing brace follows the first opening brace.
\<close>

definition re_search_braces :: "string \<Rightarrow> string option" where
  "re_search_braces text =
     (case dropWhile (\<lambda>c. c \<noteq> CHR ''{'') text of
        [] \<Rightarrow> None
      | c # rest \<Rightarrow>
          (let body = rev (dropWhile (\<lambda>c. c \<noteq> CHR ''}'') (rev rest))
           in if body = [] then None else Some (c # body)))"

text \<open>
  The spec's words: the text contains a brace-delimited substring, that is, an opening
  brace with a closing brace somewhere after it.
\<close>

fun brace_delimited :: "string \<Rightarrow> bool" where
  "brace_delimited [] = False"
| "brace_delimited (c # cs) = ((c = CHR ''{'' \<and> CHR ''}'' \<in> set cs) \<or> brace_delimited cs)"

text \<open>\<^verbatim>\<open>d.get(key, default)\<close>: defined on dictionaries, an AttributeError elsewhere.\<close>

fun py_get :: "pyval \<Rightarrow> string \<Rightarrow> pyval \<Rightarrow> exn + pyval" where
  "py_get (PDict kvs) k dflt = Inr (case map_of kvs k of None \<Rightarrow> dflt | Some v \<Rightarrow> v)"
| "py_get PNone k dflt = Inl AttributeError"
| "py_get (PBool b) k dflt = Inl AttributeError"
| "py_get (PInt i) k dflt = Inl AttributeError"
| "py_get (PStr s) k dflt = Inl AttributeError"
| "py_get (PList xs) k dflt = Inl AttributeError"

text \<open>\<^verbatim>\<open>x + ' Lead'\<close>: concatenation when \<open>x\<close> is a string, a TypeError otherwise.\<close>

fun py_add_str :: "pyval \<Rightarrow> string \<Rightarrow> exn + pyval" where
  "py_add_str (PStr s) t = Inr (PStr (s @ t))"
| "py_add_str PNone t = Inl TypeError"
| "py_add_str (PBool b) t = Inl TypeError"
| "py_add_str (PInt i) t = Inl TypeError"
| "py_add_str (PList xs) t = Inl TypeError"
| "py_add_str (PDict kvs) t = Inl TypeError"

text \<open>Lines 101 to 107: the fields of the new lead, from the extracted structure.\<close>

definition lead_values :: "pyval \<Rightarrow> exn + pyval" where
  "lead_values extracted =
     (case py_get extracted ''name'' (PStr ''New Lead'') of
        Inl e \<Rightarrow> Inl e
      | Inr n \<Rightarrow>
     (case py_add_str n '' Lead'' of
        Inl e \<Rightarrow> Inl e
      | Inr name \<Rightarrow>
     (case py_get extracted ''name'' PNone of
        Inl e \<Rightarrow> Inl e
      | Inr contact_name \<Rightarrow>
     (case py_get extracted ''email'' PNone of
        Inl e \<Rightarrow> Inl e
      | Inr email_from \<Rightarrow>
     (case py_get extracted ''phone'' PNone of
        Inl e \<Rightarrow> Inl e
      | Inr phone \<Rightarrow>
     (case py_get extracted ''requirements'' PNone of
        Inl e \<Rightarrow> Inl e
      | Inr description \<Rightarrow>
          Inr (PDict [(''name'', name), (''contact_name'', contact_name), (''email_from'', email_from),
                      (''phone'', phone), (''description'', description)])))))))"

text \<open>
  What the user is shown: \<open>Lead_created\<close> is the success message with the identifier; the
  others are the four error messages of the block, two of them with the exception.
\<close>

datatype notice =
    Lead_created pyval
  | Authentication_failed
  | Error_connecting exn
  | Failed_to_extract
  | Error_extracting exn

record chat_config =
  odoo_db :: string
  odoo_username :: string
  odoo_password :: string

definition odoo_url :: string where
  "odoo_url = ''http://localhost:8069''"

text \<open>Lines 95 to 112: the inner guarded block. It gives the notice and the requests sent.\<close>

definition connect_to_odoo_body :: "transport \<Rightarrow> chat_config \<Rightarrow> pyval \<Rightarrow> request list \<Rightarrow> (exn + notice) \<times> request list" where
  "connect_to_odoo_body tr cfg extracted h =
     (case server_proxy tr (odoo_url @ ''/xmlrpc/2/common'') of
        Inl e \<Rightarrow> (Inl e, h)
      | Inr common \<Rightarrow>
          (let req = Authenticate common (odoo_db cfg) (odoo_username cfg) (odoo_password cfg);
               h1 = h @ [req]
           in case xmlrpc_call tr h req of
                Inl e \<Rightarrow> (Inl e, h1)
              | Inr user_id \<Rightarrow>
                  if truthy user_id
                  then (case server_proxy tr (odoo_url @ ''/xmlrpc/2/object'') of
                          Inl e \<Rightarrow> (Inl e, h1)
                        | Inr models \<Rightarrow>
                            (case lead_values extracted of
                               Inl e \<Rightarrow> (Inl e, h1)
                             | Inr vals \<Rightarrow>
                                 (let req2 = ExecuteKw models (odoo_db cfg) user_id (odoo_password cfg)
                                               ''crm.lead'' ''create'' [vals]
                                  in case xmlrpc_call tr h1 req2 of
                                       Inl e \<Rightarrow> (Inl e, h1 @ [req2])
                                     | Inr lead_id \<Rightarrow> (Inr (Lead_created lead_id), h1 @ [req2]))))
                  else (Inr Authentication_failed, h1)))"

definition connect_to_odoo :: "transport \<Rightarrow> chat_config \<Rightarrow> pyval \<Rightarrow> request list \<Rightarrow> notice \<times> request list" where
  "connect_to_odoo tr cfg extracted h =
     (case connect_to_odoo_body tr cfg extracted h of
        (Inl e, h1) \<Rightarrow> (Error_connecting e, h1)
      | (Inr n, h1) \<Rightarrow> (n, h1))"

text \<open>
  Lines 85 to 116: the outer guarded block. \<open>generated\<close> is the text of the answer of the
  generation service to the extraction prompt, or the exception the call raised.
  \<open>json_loads\<close> is the JSON reader of the standard library, a parameter here. The block
  gives the notice, the lead information of the session (replaced when the parse
  succeeds) and the requests sent.
\<close>

definition extraction_block :: "(string \<Rightarrow> exn + pyval) \<Rightarrow> transport \<Rightarrow> chat_config \<Rightarrow> exn + string \<Rightarrow> pyval \<Rightarrow> request list \<Rightarrow> notice \<times> pyval \<times> request list" where
  "extraction_block json_loads tr cfg generated lead_info h =
     (case generated of
        Inl e \<Rightarrow> (Error_extracting e, lead_info, h)
      | Inr text \<Rightarrow>
          (case re_search_braces text of
             None \<Rightarrow> (Failed_to_extract, lead_info, h)
           | Some matched \<Rightarrow>
               (case json_loads matched of
                  Inl e \<Rightarrow> (Error_extracting e, lead_info, h)
                | Inr extracted \<Rightarrow>
                    (case connect_to_odoo tr cfg extracted h of
                       (n, h1) \<Rightarrow> (n, extracted, h1)))))"

section \<open>Concrete sessions and transports\<close>

text \<open>The session of the demonstration driver, and a transport on which every call fails.\<close>

definition demo_session :: session where
  "demo_session = OdooAPI_init ''http://localhost:8069'' ''odoo'' ''admin'' ''admin''"

definition refusing :: transport where
  "refusing =
     \<lparr> server_proxy = (\<lambda>u. Inr (ServerProxy u)),
       xmlrpc_call = (\<lambda>h r. Inl (TransportError ''Connection refused'')),
       requests_post = (\<lambda>h r. Inl (TransportError ''Connection refused'')),
       time_time = (\<lambda>h. 0) \<rparr>"

text \<open>
  A transport that accepts every login with user 2 and answers every method call. Over
  XML-RPC a create returns the number of requests seen so far (a fresh identifier each
  time), a write or an unlink returns true, anything else the empty list, except that a
  call on the null value alone, or on record 13 alone, faults. Over JSON-RPC every call has the result 7, and a
  session cookie comes with every answer.
\<close>

definition serving :: transport where
  "serving =
     \<lparr> server_proxy = (\<lambda>u. Inr (ServerProxy u)),
       xmlrpc_call = (\<lambda>h r.
          case r of
            Authenticate p d u pw \<Rightarrow> Inr (PInt 2)
          | ExecuteKw p d u pw model method args \<Rightarrow>
              if args = [PList [PNone]] \<or> args = [PList [PInt 13]] then Inl (TransportError ''Fault'')
              else if method = ''create'' then Inr (PInt (int (length h)))
              else if method = ''write'' \<or> method = ''unlink'' then Inr (PBool True)
              else Inr (PList [])
          | HttpPost u payload cs \<Rightarrow> Inl (TransportError ''not an XML-RPC call'')),
       requests_post = (\<lambda>h r.
          case r of
            HttpPost u payload cs \<Rightarrow>
              Inr \<lparr> status_code = 200,
                    json = Inr (PDict [(''jsonrpc'', PStr ''2.0''),
                                       (''result'', if cs = [] then PInt 2 else PInt 7)]),
                    cookies = [(''session_id'', ''abc'')] \<rparr>
          | _ \<Rightarrow> Inl (TransportError ''not an HTTP request'')),
       time_time = (\<lambda>h. 1762214400) \<rparr>"

text \<open>
  A transport that answers every login with the value false: over XML-RPC as the result
  of the call, over JSON-RPC as the result member of a well-formed answer.
\<close>

definition rejecting :: transport where
  "rejecting =
     \<lparr> server_proxy = (\<lambda>u. Inr (ServerProxy u)),
       xmlrpc_call = (\<lambda>h r. Inr (PBool False)),
       requests_post = (\<lambda>h r.
          Inr \<lparr> status_code = 200,
                json = Inr (PDict [(''jsonrpc'', PStr ''2.0''), (''id'', PInt 1), (''result'', PBool False)]),
                cookies = [] \<rparr>),
       time_time = (\<lambda>h. 1762214400) \<rparr>"


text \<open>
  A transport that accepts every login with user 2 and answers every method call with a
  protocol-level error: over XML-RPC a fault, which the library raises; over JSON-RPC a
  well-formed answer with an \<^verbatim>\<open>error\<close> member and no \<^verbatim>\<open>result\<close>.
\<close>

definition erroring :: transport where
  "erroring =
     \<lparr> server_proxy = (\<lambda>u. Inr (ServerProxy u)),
       xmlrpc_call = (\<lambda>h r.
          case r of
            Authenticate p d u pw \<Rightarrow> Inr (PInt 2)
          | _ \<Rightarrow> Inl (TransportError ''Fault 2: Access Denied'')),
       requests_post = (\<lambda>h r.
          case r of
            HttpPost u payload cs \<Rightarrow>
              if cs = []
              then Inr \<lparr> status_code = 200,
                         json = Inr (PDict [(''jsonrpc'', PStr ''2.0''), (''id'', PInt 1), (''result'', PInt 2)]),
                         cookies = [(''session_id'', ''abc'')] \<rparr>
              else Inr \<lparr> status_code = 200,
                         json = Inr (PDict [(''jsonrpc'', PStr ''2.0''),
                                            (''error'', PDict [(''code'', PInt 200),
                                                              (''message'', PStr ''Odoo Server Error'')])]),
                         cookies = [] \<rparr>
          | _ \<Rightarrow> Inl (TransportError ''not an HTTP request'')),
       time_time = (\<lambda>h. 1762214400) \<rparr>"

section \<open>The example of the extraction test, and a JSON reader for it\<close>

text \<open>
  The answer of the generation service in the test of the spec, the JSON object embedded
  in it, and the structure that object denotes.
\<close>


definition example_response :: string where
  \<open>example_response =
     ''Here is the info: {"name":"Alice","email":"a@x.com","phone":null,"requirements":"CRM demo"} Thanks''\<close>

definition example_object :: string where
  \<open>example_object = ''{"name":"Alice","email":"a@x.com","phone":null,"requirements":"CRM demo"}''\<close>

definition example_parsed :: pyval where
  "example_parsed =
     PDict [(''name'', PStr ''Alice''), (''email'', PStr ''a@x.com''), (''phone'', PNone),
            (''requirements'', PStr ''CRM demo'')]"

text \<open>
  The extraction block takes the JSON reader of the standard library as a parameter. To
  run the block on the example, \<open>json_reader\<close> reads a part of JSON: objects, arrays,
  strings of plain ASCII characters (no escapes, no control characters), integers
  without leading zeros, \<^verbatim>\<open>true\<close>, \<^verbatim>\<open>false\<close> and \<^verbatim>\<open>null\<close>, with white space between
  tokens. Of two members with the same name the later value is kept, at the place of
  the first. On a text outside this part (also one with a fraction, an exponent or an
  escape, which the library would read) it raises. The fuel bounds the depth of the
  recursion and is set from the length of the text.
\<close>

definition is_space :: "char \<Rightarrow> bool" where
  "is_space c \<longleftrightarrow> c = CHR '' '' \<or> c = CHR 0x09 \<or> c = CHR 0x0A \<or> c = CHR 0x0D"

definition is_digit :: "char \<Rightarrow> bool" where
  "is_digit c \<longleftrightarrow> c \<in> set ''0123456789''"

definition digits_value :: "string \<Rightarrow> int" where
  "digits_value ds = foldl (\<lambda>acc c. 10 * acc + (int (of_char c) - 48)) 0 ds"

definition is_plain :: "char \<Rightarrow> bool" where
  "is_plain c \<longleftrightarrow> (32 :: nat) \<le> of_char c \<and> (of_char c :: nat) < 128 \<and> c \<noteq> CHR 0x22 \<and> c \<noteq> CHR 0x5C"

definition plain_number :: "string \<Rightarrow> bool" where
  "plain_number ds \<longleftrightarrow> ds \<noteq> [] \<and> (ds = ''0'' \<or> hd ds \<noteq> CHR ''0'')"

fun read_string :: "string \<Rightarrow> (string \<times> string) option" where
  "read_string [] = None"
| "read_string (c # cs) =
     (if c = CHR 0x22 then Some ([], cs)
      else if \<not> is_plain c then None
      else (case read_string cs of None \<Rightarrow> None | Some (s, r) \<Rightarrow> Some (c # s, r)))"

fun read_value :: "nat \<Rightarrow> string \<Rightarrow> (pyval \<times> string) option"
  and read_items :: "nat \<Rightarrow> string \<Rightarrow> (pyval list \<times> string) option"
  and read_members :: "nat \<Rightarrow> string \<Rightarrow> ((string \<times> pyval) list \<times> string) option" where
  "read_value 0 text = None"
| "read_value (Suc fuel) text =
     (case dropWhile is_space text of
        [] \<Rightarrow> None
      | c # cs \<Rightarrow>
          if c = CHR ''{''
          then (case dropWhile is_space cs of
                  [] \<Rightarrow> None
                | d # ds \<Rightarrow>
                    if d = CHR ''}'' then Some (PDict [], ds)
                    else (case read_members fuel cs of None \<Rightarrow> None | Some (ms, r) \<Rightarrow> Some (PDict ms, r)))
          else if c = CHR ''[''
          then (case dropWhile is_space cs of
                  [] \<Rightarrow> None
                | d # ds \<Rightarrow>
                    if d = CHR '']'' then Some (PList [], ds)
                    else (case read_items fuel cs of None \<Rightarrow> None | Some (vs, r) \<Rightarrow> Some (PList vs, r)))
          else if c = CHR 0x22
          then (case read_string cs of None \<Rightarrow> None | Some (s, r) \<Rightarrow> Some (PStr s, r))
          else if prefix ''null'' (c # cs) then Some (PNone, drop 4 (c # cs))
          else if prefix ''true'' (c # cs) then Some (PBool True, drop 4 (c # cs))
          else if prefix ''false'' (c # cs) then Some (PBool False, drop 5 (c # cs))
          else if c = CHR ''-'' \<and> plain_number (takeWhile is_digit cs)
          then Some (PInt (- digits_value (takeWhile is_digit cs)), dropWhile is_digit cs)
          else if plain_number (takeWhile is_digit (c # cs))
          then Some (PInt (digits_value (takeWhile is_digit (c # cs))), dropWhile is_digit (c # cs))
          else None)"
| "read_items 0 text = None"
| "read_items (Suc fuel) text =
     (case read_value fuel text of
        None \<Rightarrow> None
      | Some (v, r) \<Rightarrow>
          (case dropWhile is_space r of
             [] \<Rightarrow> None
           | c # cs \<Rightarrow>
               if c = CHR '','' then (case read_items fuel cs of None \<Rightarrow> None | Some (vs, r1) \<Rightarrow> Some (v # vs, r1))
               else if c = CHR '']'' then Some ([v], cs)
               else None))"
| "read_members 0 text = None"
| "read_members (Suc fuel) text =
     (case dropWhile is_space text of
        [] \<Rightarrow> None
      | q # cs \<Rightarrow>
          if q \<noteq> CHR 0x22 then None
          else (case read_string cs of
                  None \<Rightarrow> None
                | Some (k, r) \<Rightarrow>
                    (case dropWhile is_space r of
                       [] \<Rightarrow> None
                     | colon # r1 \<Rightarrow>
                         if colon \<noteq> CHR '':'' then None
                         else (case read_value fuel r1 of
                                 None \<Rightarrow> None
                               | Some (v, r2) \<Rightarrow>
                                   (case dropWhile is_space r2 of
                                      [] \<Rightarrow> None
                                    | c # r3 \<Rightarrow>
                                        if c = CHR '',''
                                        then (case read_members fuel r3 of
                                                None \<Rightarrow> None
                                              | Some (ms, r4) \<Rightarrow>
                                                  Some ((k, case map_of ms k of None \<Rightarrow> v | Some w \<Rightarrow> w)
                                                        # AList.delete k ms, r4))
                                        else if c = CHR ''}'' then Some ([(k, v)], r3)
                                        else None)))))"

definition json_reader :: "string \<Rightarrow> exn + pyval" where
  "json_reader text =
     (case read_value (Suc (length text)) text of
        None \<Rightarrow> Inl JSONDecodeError
      | Some (v, r) \<Rightarrow> if dropWhile is_space r = [] then Inr v else Inl JSONDecodeError)"

text \<open>The side panel of the assistant as the test fills it, and the lead information at the start.\<close>

definition example_config :: chat_config where
  "example_config = \<lparr> odoo_db = ''odoo'', odoo_username = ''admin'', odoo_password = ''admin'' \<rparr>"

definition initial_lead_info :: pyval where
  "initial_lead_info =
     PDict [(''name'', PNone), (''email'', PNone), (''phone'', PNone), (''requirements'', PNone)]"

section \<open>Facts about authenticate and execute\<close>

lemma try_except_returns: "\<exists>v. fst (try_except body sentinel st) = Inr v"
  by (auto simp: try_except_def split: prod.splits sum.splits)

lemma xmlrpc_authenticate_bool:
  "\<exists>ok. fst (xmlrpc_authenticate tr st) = Inr ok"
  unfolding xmlrpc_authenticate_def by (rule try_except_returns)

lemma jsonrpc_authenticate_bool:
  "\<exists>ok. fst (jsonrpc_authenticate tr st) = Inr ok"
  unfolding jsonrpc_authenticate_def by (rule try_except_returns)

lemma xmlrpc_authenticate_history:
  "snd (snd (xmlrpc_authenticate tr (s, h))) = h \<or>
   (\<exists>p. snd (snd (xmlrpc_authenticate tr (s, h))) = h @ [Authenticate p (db s) (username s) (password s)])"
  by (auto simp: xmlrpc_authenticate_def xmlrpc_authenticate_body_def try_except_def Let_def
           split: sum.splits)

lemma jsonrpc_authenticate_history:
  "snd (snd (jsonrpc_authenticate tr (s, h))) = h @ [HttpPost (jsonrpc_url s) (login_payload s) []]"
  by (auto simp: jsonrpc_authenticate_def jsonrpc_authenticate_body_def try_except_def Let_def
           split: sum.splits bool.splits)

lemma xmlrpc_authenticate_success:
  assumes "xmlrpc_authenticate tr (s, h) = (Inr True, s1, h1)"
  shows "truthy (uid s1) \<and> (\<exists>q. xmlrpc_models s1 = Some q)"
  using assms
  by (auto simp: xmlrpc_authenticate_def xmlrpc_authenticate_body_def try_except_def Let_def
           split: sum.splits if_splits)

lemma jsonrpc_authenticate_success:
  assumes "jsonrpc_authenticate tr (s, h) = (Inr True, s1, h1)"
  shows "truthy (uid s1)"
  using assms
  by (auto simp: jsonrpc_authenticate_def jsonrpc_authenticate_body_def try_except_def Let_def
           split: sum.splits if_splits bool.splits)

lemma xmlrpc_execute_after_failed_authenticate:
  assumes "\<not> truthy (uid s) \<or> xmlrpc_models s = None"
    and "xmlrpc_authenticate tr (s, h) = (Inr False, s1, h1)"
  shows "xmlrpc_execute tr model method args (s, h) = (Inr PNone, s1, h1)"
  using assms by (auto simp: xmlrpc_execute_def xmlrpc_execute_body_def try_except_def)

lemma xmlrpc_execute_after_authenticate:
  assumes "\<not> truthy (uid s) \<or> xmlrpc_models s = None"
    and "xmlrpc_authenticate tr (s, h) = (Inr True, s1, h1)"
  shows "xmlrpc_execute tr model method args (s, h) =
           try_except (xmlrpc_dispatch tr model method args) PNone (s1, h1)"
  using assms by (auto simp: xmlrpc_execute_def xmlrpc_execute_body_def try_except_def)

lemma xmlrpc_dispatch_request:
  assumes "xmlrpc_models s1 = Some q"
  shows "try_except (xmlrpc_dispatch tr model method args) PNone (s1, h1) =
           (case xmlrpc_call tr h1 (ExecuteKw q (db s1) (uid s1) (password s1) model method args) of
              Inl e \<Rightarrow> Inr PNone | Inr v \<Rightarrow> Inr v,
            s1, h1 @ [ExecuteKw q (db s1) (uid s1) (password s1) model method args])"
  using assms by (auto simp: xmlrpc_dispatch_def try_except_def Let_def split: sum.splits)

lemma jsonrpc_execute_after_failed_authenticate:
  assumes "\<not> truthy (uid s)"
    and "jsonrpc_authenticate tr (s, h) = (Inr False, s1, h1)"
  shows "jsonrpc_execute tr model method args (s, h) = (Inr PNone, s1, h1)"
  using assms by (auto simp: jsonrpc_execute_def jsonrpc_execute_body_def try_except_def)

lemma jsonrpc_execute_after_authenticate:
  assumes "\<not> truthy (uid s)"
    and "jsonrpc_authenticate tr (s, h) = (Inr True, s1, h1)"
  shows "jsonrpc_execute tr model method args (s, h) =
           try_except (jsonrpc_dispatch tr model method args) PNone (s1, h1)"
  using assms by (auto simp: jsonrpc_execute_def jsonrpc_execute_body_def try_except_def)

lemma jsonrpc_dispatch_request:
  "snd (try_except (jsonrpc_dispatch tr model method args) PNone (s1, h1)) =
     (s1, h1 @ [HttpPost (jsonrpc_url s1) (execute_payload tr model method args (s1, h1)) (session_cookies s1)])"
  by (auto simp: jsonrpc_dispatch_def try_except_def Let_def split: sum.splits bool.splits)

text \<open>What the operations do on the demonstration session when every call is refused.\<close>

lemmas eval_defs = xmlrpc_execute_def xmlrpc_execute_body_def xmlrpc_authenticate_def
      xmlrpc_authenticate_body_def xmlrpc_dispatch_def jsonrpc_execute_def jsonrpc_execute_body_def
      jsonrpc_authenticate_def jsonrpc_authenticate_body_def jsonrpc_dispatch_def
      try_except_def demo_session_def OdooAPI_init_def
      rstrip_slash_def Let_def login_payload_def execute_payload_def session_cookies_def

lemma refusing_xmlrpc_authenticate:
  "xmlrpc_authenticate refusing (demo_session, []) =
     (Inr False,
      demo_session\<lparr>xmlrpc_common := Some (ServerProxy ''http://localhost:8069/xmlrpc/2/common'')\<rparr>,
      [Authenticate (ServerProxy ''http://localhost:8069/xmlrpc/2/common'') ''odoo'' ''admin'' ''admin''])"
  by (simp add: eval_defs refusing_def)

lemma refusing_jsonrpc_authenticate:
  "xmlrpc_models demo_session = None \<and> uid demo_session = PNone \<and>
   jsonrpc_authenticate refusing (demo_session, []) =
     (Inr False, demo_session, [HttpPost ''http://localhost:8069/jsonrpc'' (login_payload demo_session) []])"
  by (simp add: eval_defs refusing_def)

lemma serving_xmlrpc_authenticate:
  "xmlrpc_authenticate serving (demo_session, []) =
     (Inr True,
      demo_session\<lparr>uid := PInt 2,
                    xmlrpc_common := Some (ServerProxy ''http://localhost:8069/xmlrpc/2/common''),
                    xmlrpc_models := Some (ServerProxy ''http://localhost:8069/xmlrpc/2/object'')\<rparr>,
      [Authenticate (ServerProxy ''http://localhost:8069/xmlrpc/2/common'') ''odoo'' ''admin'' ''admin''])"
  by (simp add: eval_defs serving_def)

lemma serving_jsonrpc_authenticate:
  "jsonrpc_authenticate serving (demo_session, []) =
     (Inr True, demo_session\<lparr>uid := PInt 2, session_id := Some ''abc''\<rparr>,
      [HttpPost ''http://localhost:8069/jsonrpc'' (login_payload demo_session) []])"
  by (simp add: eval_defs serving_def)

lemma serving_xmlrpc_execute:
  "args \<noteq> [PList [PNone]] \<Longrightarrow> args \<noteq> [PList [PInt 13]] \<Longrightarrow>
   xmlrpc_execute serving model ''create'' args (demo_session, []) =
     (Inr (PInt 1),
      demo_session\<lparr>uid := PInt 2,
                    xmlrpc_common := Some (ServerProxy ''http://localhost:8069/xmlrpc/2/common''),
                    xmlrpc_models := Some (ServerProxy ''http://localhost:8069/xmlrpc/2/object'')\<rparr>,
      [Authenticate (ServerProxy ''http://localhost:8069/xmlrpc/2/common'') ''odoo'' ''admin'' ''admin'',
       ExecuteKw (ServerProxy ''http://localhost:8069/xmlrpc/2/object'') ''odoo'' (PInt 2) ''admin''
         model ''create'' args])"
  by (simp add: eval_defs serving_def)

lemma serving_jsonrpc_execute:
  "fst (jsonrpc_execute serving model method args (demo_session, [])) = Inr (PInt 7)"
  by (simp add: eval_defs serving_def)

lemma refusing_xmlrpc_execute:
  "xmlrpc_execute refusing model method args (demo_session, []) =
     (Inr PNone,
      demo_session\<lparr>xmlrpc_common := Some (ServerProxy ''http://localhost:8069/xmlrpc/2/common'')\<rparr>,
      [Authenticate (ServerProxy ''http://localhost:8069/xmlrpc/2/common'') ''odoo'' ''admin'' ''admin''])"
  by (simp add: xmlrpc_execute_def xmlrpc_execute_body_def xmlrpc_authenticate_def
      xmlrpc_authenticate_body_def try_except_def refusing_def demo_session_def OdooAPI_init_def
      rstrip_slash_def Let_def)

lemma refusing_jsonrpc_execute:
  "fst (jsonrpc_execute refusing model method args (demo_session, [])) = Inr PNone"
  by (simp add: jsonrpc_execute_def jsonrpc_execute_body_def jsonrpc_authenticate_def
      jsonrpc_authenticate_body_def try_except_def refusing_def demo_session_def OdooAPI_init_def
      rstrip_slash_def Let_def)

lemmas op_defs = create_lead_xmlrpc_def create_lead_jsonrpc_def create_lead_def create_lead_body_def
  read_lead_xmlrpc_def read_lead_jsonrpc_def read_lead_def read_lead_body_def
  update_lead_xmlrpc_def update_lead_jsonrpc_def update_lead_def update_lead_body_def
  delete_lead_xmlrpc_def delete_lead_jsonrpc_def delete_lead_def delete_lead_body_def
  create_leads_batch_xmlrpc_def create_leads_batch_jsonrpc_def create_leads_batch_def
  update_leads_batch_xmlrpc_def update_leads_batch_jsonrpc_def update_leads_batch_def
  delete_leads_batch_xmlrpc_def delete_leads_batch_jsonrpc_def delete_leads_batch_def

section \<open>The batch loops against the yardstick\<close>

lemma try_except_Inr: "\<exists>v st1. try_except body sentinel st = (Inr v, st1)"
  by (auto simp: try_except_def split: prod.splits sum.splits)

lemma create_leads_loop_runs:
  "\<exists>outs. fst (runs (create_lead exec) leads_data st) = map Inr outs
         \<and> length outs = length leads_data
         \<and> create_leads_loop exec leads_data lead_ids st =
             (Inr (lead_ids @ filter truthy outs), snd (runs (create_lead exec) leads_data st))"
proof (induction leads_data arbitrary: lead_ids st)
  case Nil
  show ?case by simp
next
  case (Cons lead_data rest)
  obtain v st1 where one: "create_lead exec lead_data st = (Inr v, st1)"
    using try_except_Inr [of "create_lead_body exec lead_data" PNone st]
    by (auto simp: create_lead_def)
  from Cons.IH [of st1 "if truthy v then lead_ids @ [v] else lead_ids"]
  obtain outs where outs: "fst (runs (create_lead exec) rest st1) = map Inr outs"
    "length outs = length rest"
    "create_leads_loop exec rest (if truthy v then lead_ids @ [v] else lead_ids) st1 =
       (Inr ((if truthy v then lead_ids @ [v] else lead_ids) @ filter truthy outs),
        snd (runs (create_lead exec) rest st1))"
    by blast
  have "fst (runs (create_lead exec) (lead_data # rest) st) = map Inr (v # outs)
         \<and> length (v # outs) = length (lead_data # rest)
         \<and> create_leads_loop exec (lead_data # rest) lead_ids st =
             (Inr (lead_ids @ filter truthy (v # outs)), snd (runs (create_lead exec) (lead_data # rest) st))"
    using one outs by (cases "runs (create_lead exec) rest st1") simp
  then show ?case by blast
qed

lemma create_leads_batch_runs:
  "\<exists>outs. fst (runs (create_lead exec) leads_data st) = map Inr outs
         \<and> length outs = length leads_data
         \<and> create_leads_batch exec leads_data st =
             (Inr (filter truthy outs), snd (runs (create_lead exec) leads_data st))"
  using create_leads_loop_runs [of exec leads_data st "[]"]
  by (auto simp: create_leads_batch_def try_except_def)

lemma update_leads_loop_runs:
  "\<exists>outs. fst (runs (\<lambda>(lead_id, update_data). update_lead exec lead_id update_data) leads_updates st) = map Inr outs
         \<and> length outs = length leads_updates
         \<and> update_leads_loop exec leads_updates results st =
             (Inr (AList.updates (map fst leads_updates) outs results),
              snd (runs (\<lambda>(lead_id, update_data). update_lead exec lead_id update_data) leads_updates st))"
proof (induction leads_updates arbitrary: results st)
  case Nil
  show ?case by simp
next
  case (Cons item rest)
  obtain lead_id update_data where item: "item = (lead_id, update_data)" by (cases item)
  let ?op = "\<lambda>(lead_id, update_data). update_lead exec lead_id update_data"
  obtain v st1 where one: "update_lead exec lead_id update_data st = (Inr v, st1)"
    using try_except_Inr [of "update_lead_body exec lead_id update_data" "PBool False" st]
    by (auto simp: update_lead_def)
  from Cons.IH [of st1 "AList.update lead_id v results"]
  obtain outs where outs: "fst (runs ?op rest st1) = map Inr outs"
    "length outs = length rest"
    "update_leads_loop exec rest (AList.update lead_id v results) st1 =
       (Inr (AList.updates (map fst rest) outs (AList.update lead_id v results)), snd (runs ?op rest st1))"
    by blast
  have "fst (runs ?op (item # rest) st) = map Inr (v # outs)
         \<and> length (v # outs) = length (item # rest)
         \<and> update_leads_loop exec (item # rest) results st =
             (Inr (AList.updates (map fst (item # rest)) (v # outs) results), snd (runs ?op (item # rest) st))"
    using one outs item by (cases "runs ?op rest st1") simp
  then show ?case by blast
qed

lemma delete_leads_loop_runs:
  "\<exists>outs. fst (runs (delete_lead exec) lead_ids st) = map Inr outs
         \<and> length outs = length lead_ids
         \<and> delete_leads_loop exec lead_ids results st =
             (Inr (AList.updates lead_ids outs results), snd (runs (delete_lead exec) lead_ids st))"
proof (induction lead_ids arbitrary: results st)
  case Nil
  show ?case by simp
next
  case (Cons lead_id rest)
  obtain v st1 where one: "delete_lead exec lead_id st = (Inr v, st1)"
    using try_except_Inr [of "delete_lead_body exec lead_id" "PBool False" st]
    by (auto simp: delete_lead_def)
  from Cons.IH [of st1 "AList.update lead_id v results"]
  obtain outs where outs: "fst (runs (delete_lead exec) rest st1) = map Inr outs"
    "length outs = length rest"
    "delete_leads_loop exec rest (AList.update lead_id v results) st1 =
       (Inr (AList.updates rest outs (AList.update lead_id v results)), snd (runs (delete_lead exec) rest st1))"
    by blast
  have "fst (runs (delete_lead exec) (lead_id # rest) st) = map Inr (v # outs)
         \<and> length (v # outs) = length (lead_id # rest)
         \<and> delete_leads_loop exec (lead_id # rest) results st =
             (Inr (AList.updates (lead_id # rest) (v # outs) results), snd (runs (delete_lead exec) (lead_id # rest) st))"
    using one outs by (cases "runs (delete_lead exec) rest st1") simp
  then show ?case by blast
qed

lemma updates_keys:
  "length ks = length vs \<Longrightarrow> fst ` set (AList.updates ks vs al) = fst ` set al \<union> set ks"
proof (induction ks arbitrary: vs al)
  case Nil
  then show ?case by simp
next
  case (Cons k ks)
  then obtain v vs' where vs: "vs = v # vs'" by (cases vs) auto
  with Cons show ?case by (auto simp: AList.dom_update)
qed

lemma update_fresh: "k \<notin> fst ` set al \<Longrightarrow> AList.update k v al = al @ [(k, v)]"
  by (induction al) auto

lemma updates_distinct:
  "length ks = length vs \<Longrightarrow> distinct ks \<Longrightarrow> set ks \<inter> fst ` set al = {}
     \<Longrightarrow> AList.updates ks vs al = al @ zip ks vs"
proof (induction ks arbitrary: vs al)
  case Nil
  then show ?case by simp
next
  case (Cons k ks)
  then obtain v vs' where vs: "vs = v # vs'" by (cases vs) auto
  have fresh: "k \<notin> fst ` set al" using Cons.prems by auto
  have "AList.updates ks vs' (al @ [(k, v)]) = (al @ [(k, v)]) @ zip ks vs'"
    using Cons.prems vs by (intro Cons.IH) auto
  then show ?case using vs fresh by (simp add: update_fresh)
qed

lemma batch_mapping:
  assumes "length ks = length vs"
  shows "fst ` set (AList.updates ks vs []) = set ks"
    and "distinct (map fst (AList.updates ks vs []))"
    and "map_of (AList.updates ks vs []) = Map.empty (ks [\<mapsto>] vs)"
    and "distinct ks \<Longrightarrow> AList.updates ks vs [] = zip ks vs"
  using assms updates_keys [of ks vs "[]"] updates_distinct [of ks vs "[]"]
  by (simp_all add: AList.distinct_updates AList.updates_conv')

lemma update_leads_batch_runs:
  "\<exists>outs results.
      fst (runs (\<lambda>(lead_id, update_data). update_lead exec lead_id update_data) leads_updates st) = map Inr outs
      \<and> length outs = length leads_updates
      \<and> update_leads_batch exec leads_updates st =
          (Inr results, snd (runs (\<lambda>(lead_id, update_data). update_lead exec lead_id update_data) leads_updates st))
      \<and> results = AList.updates (map fst leads_updates) outs []
      \<and> fst ` set results = set (map fst leads_updates)
      \<and> distinct (map fst results)
      \<and> map_of results = Map.empty (map fst leads_updates [\<mapsto>] outs)
      \<and> (distinct (map fst leads_updates) \<longrightarrow> results = zip (map fst leads_updates) outs)"
proof -
  obtain outs where outs:
    "fst (runs (\<lambda>(lead_id, update_data). update_lead exec lead_id update_data) leads_updates st) = map Inr outs"
    "length outs = length leads_updates"
    "update_leads_loop exec leads_updates [] st =
       (Inr (AList.updates (map fst leads_updates) outs []),
        snd (runs (\<lambda>(lead_id, update_data). update_lead exec lead_id update_data) leads_updates st))"
    using update_leads_loop_runs [of exec leads_updates st "[]"] by blast
  have len: "length (map fst leads_updates) = length outs" using outs(2) by simp
  have "update_leads_batch exec leads_updates st =
          (Inr (AList.updates (map fst leads_updates) outs []),
           snd (runs (\<lambda>(lead_id, update_data). update_lead exec lead_id update_data) leads_updates st))"
    using outs(3) by (simp add: update_leads_batch_def try_except_def)
  then show ?thesis
    using outs(1,2) batch_mapping [OF len] by blast
qed

lemma delete_leads_batch_runs:
  "\<exists>outs results.
      fst (runs (delete_lead exec) lead_ids st) = map Inr outs
      \<and> length outs = length lead_ids
      \<and> delete_leads_batch exec lead_ids st = (Inr results, snd (runs (delete_lead exec) lead_ids st))
      \<and> results = AList.updates lead_ids outs []
      \<and> fst ` set results = set lead_ids
      \<and> distinct (map fst results)
      \<and> map_of results = Map.empty (lead_ids [\<mapsto>] outs)
      \<and> (distinct lead_ids \<longrightarrow> results = zip lead_ids outs)"
proof -
  obtain outs where outs:
    "fst (runs (delete_lead exec) lead_ids st) = map Inr outs"
    "length outs = length lead_ids"
    "delete_leads_loop exec lead_ids [] st =
       (Inr (AList.updates lead_ids outs []), snd (runs (delete_lead exec) lead_ids st))"
    using delete_leads_loop_runs [of exec lead_ids st "[]"] by blast
  have len: "length lead_ids = length outs" using outs(2) by simp
  have "delete_leads_batch exec lead_ids st =
          (Inr (AList.updates lead_ids outs []), snd (runs (delete_lead exec) lead_ids st))"
    using outs(3) by (simp add: delete_leads_batch_def try_except_def)
  then show ?thesis
    using outs(1,2) batch_mapping [OF len] by blast
qed

section \<open>What operations do to the session\<close>

lemma xmlrpc_authenticate_frame:
  "unchanged_fields s (fst (snd (xmlrpc_authenticate tr (s, h))))"
  by (auto simp: unchanged_fields_def xmlrpc_authenticate_def xmlrpc_authenticate_body_def try_except_def Let_def
           split: sum.splits)

lemma jsonrpc_authenticate_frame:
  "unchanged_fields s (fst (snd (jsonrpc_authenticate tr (s, h))))"
  by (auto simp: unchanged_fields_def jsonrpc_authenticate_def jsonrpc_authenticate_body_def try_except_def Let_def
           split: sum.splits bool.splits)

lemma auth_reach_frame: "auth_reach tr s s1 \<Longrightarrow> unchanged_fields s s1"
proof (induction rule: auth_reach.induct)
  case (auth_reach_same s)
  show ?case by (simp add: unchanged_fields_def)
next
  case (auth_reach_xmlrpc s s1 h)
  with xmlrpc_authenticate_frame [of s1 tr h] show ?case by (simp add: unchanged_fields_def)
next
  case (auth_reach_jsonrpc s s1 h)
  with jsonrpc_authenticate_frame [of s1 tr h] show ?case by (simp add: unchanged_fields_def)
qed

lemma auth_reach_trans: "auth_reach tr s1 s2 \<Longrightarrow> auth_reach tr s s1 \<Longrightarrow> auth_reach tr s s2"
  by (induction rule: auth_reach.induct) (auto intro: auth_reach.intros)

lemma keeps_sessionI: "(\<And>s h. auth_reach tr s (fst (snd (f (s, h))))) \<Longrightarrow> keeps_session tr f"
  by (simp add: keeps_session_def)

lemma keeps_sessionD: "keeps_session tr f \<Longrightarrow> auth_reach tr (fst st) (fst (snd (f st)))"
  by (cases st) (simp add: keeps_session_def)

lemma keeps_xmlrpc_authenticate: "keeps_session tr (xmlrpc_authenticate tr)"
  by (rule keeps_sessionI) (rule auth_reach_xmlrpc, rule auth_reach_same)

lemma keeps_jsonrpc_authenticate: "keeps_session tr (jsonrpc_authenticate tr)"
  by (rule keeps_sessionI) (rule auth_reach_jsonrpc, rule auth_reach_same)

lemma xmlrpc_execute_session:
  "fst (snd (xmlrpc_execute tr model method args (s, h))) = s
   \<or> fst (snd (xmlrpc_execute tr model method args (s, h))) = fst (snd (xmlrpc_authenticate tr (s, h)))"
  by (auto simp: xmlrpc_execute_def xmlrpc_execute_body_def xmlrpc_dispatch_def try_except_def Let_def
           split: sum.splits prod.splits option.splits)

lemma jsonrpc_dispatch_session: "fst (snd (jsonrpc_dispatch tr model method args (s, h))) = s"
  by (auto simp: jsonrpc_dispatch_def Let_def split: sum.splits bool.splits)

lemma jsonrpc_execute_session:
  "fst (snd (jsonrpc_execute tr model method args (s, h))) = s
   \<or> fst (snd (jsonrpc_execute tr model method args (s, h))) = fst (snd (jsonrpc_authenticate tr (s, h)))"
proof (cases "truthy (uid s)")
  case True
  then show ?thesis
    using jsonrpc_dispatch_session [of tr model "method" args s h]
    by (cases "jsonrpc_dispatch tr model method args (s, h)")
       (auto simp: jsonrpc_execute_def jsonrpc_execute_body_def try_except_def split: sum.splits)
next
  case False
  obtain ok s1 h1 where a: "jsonrpc_authenticate tr (s, h) = (Inr ok, s1, h1)"
    using jsonrpc_authenticate_bool [of tr "(s, h)"]
    by (cases "jsonrpc_authenticate tr (s, h)") auto
  show ?thesis
  proof (cases ok)
    case True
    then show ?thesis
      using False a jsonrpc_dispatch_session [of tr model "method" args s1 h1]
      by (cases "jsonrpc_dispatch tr model method args (s1, h1)")
         (auto simp: jsonrpc_execute_def jsonrpc_execute_body_def try_except_def split: sum.splits)
  next
    case False
    then show ?thesis
      using \<open>\<not> truthy (uid s)\<close> a
      by (auto simp: jsonrpc_execute_def jsonrpc_execute_body_def try_except_def split: sum.splits)
  qed
qed

lemma keeps_xmlrpc_execute: "keeps_session tr (xmlrpc_execute tr model method args)"
proof (rule keeps_sessionI)
  fix s h
  show "auth_reach tr s (fst (snd (xmlrpc_execute tr model method args (s, h))))"
    using xmlrpc_execute_session [of tr model "method" args s h]
      auth_reach_same [of tr s] auth_reach_xmlrpc [OF auth_reach_same, of tr s h]
    by auto
qed

lemma keeps_jsonrpc_execute: "keeps_session tr (jsonrpc_execute tr model method args)"
proof (rule keeps_sessionI)
  fix s h
  show "auth_reach tr s (fst (snd (jsonrpc_execute tr model method args (s, h))))"
    using jsonrpc_execute_session [of tr model "method" args s h]
      auth_reach_same [of tr s] auth_reach_jsonrpc [OF auth_reach_same, of tr s h]
    by auto
qed

lemma try_except_state: "snd (try_except body sentinel st) = snd (body st)"
  by (auto simp: try_except_def split: prod.splits sum.splits)

lemma counted_state: "snd (counted r) = snd r"
  by (auto simp: counted_def split: prod.splits sum.splits)

lemma keeps_create_lead: "keeps_session tr (exec ''crm.lead'' ''create'' [PList [lead_data]])
    \<Longrightarrow> keeps_session tr (create_lead exec lead_data)"
  by (simp add: keeps_session_def create_lead_def create_lead_body_def try_except_state)

lemma keeps_update_lead: "keeps_session tr (exec ''crm.lead'' ''write'' [PList [PInt lead_id], lead_data])
    \<Longrightarrow> keeps_session tr (update_lead exec lead_id lead_data)"
  by (simp add: keeps_session_def update_lead_def update_lead_body_def try_except_state)

lemma keeps_delete_lead: "keeps_session tr (exec ''crm.lead'' ''unlink'' [PList [PInt lead_id]])
    \<Longrightarrow> keeps_session tr (delete_lead exec lead_id)"
  by (simp add: keeps_session_def delete_lead_def delete_lead_body_def try_except_state)

lemma read_lead_body_state:
  "snd (read_lead_body exec lead_id field_names st) =
     snd (exec ''crm.lead'' ''read''
            [PList [PInt lead_id], PDict [(''fields'', if field_names = PNone then PList [] else field_names)]] st)"
  by (auto simp: read_lead_body_def Let_def split: prod.splits sum.splits)

lemma keeps_read_lead:
  "keeps_session tr (exec ''crm.lead'' ''read''
      [PList [PInt lead_id], PDict [(''fields'', if field_names = PNone then PList [] else field_names)]])
    \<Longrightarrow> keeps_session tr (read_lead exec lead_id field_names)"
  by (simp add: keeps_session_def read_lead_def try_except_state read_lead_body_state)

lemma keeps_search_leads:
  "keeps_session tr (exec ''crm.lead'' ''search'' [domain, PDict (search_kwargs offset limit order)])
    \<Longrightarrow> keeps_session tr (search_leads exec domain offset limit order)"
  by (simp add: keeps_session_def search_leads_def search_leads_body_def try_except_state counted_state)

lemma keeps_search_read_leads:
  "keeps_session tr (exec ''crm.lead'' ''search_read''
      [domain, PDict (search_read_kwargs field_names offset limit order)])
    \<Longrightarrow> keeps_session tr (search_read_leads exec domain field_names offset limit order)"
  by (simp add: keeps_session_def search_read_leads_def search_read_leads_body_def try_except_state
      counted_state)

lemma keeps_create_leads_loop:
  assumes "\<And>lead_data. keeps_session tr (create_lead exec lead_data)"
  shows "auth_reach tr (fst st) (fst (snd (create_leads_loop exec leads_data lead_ids st)))"
proof (induction leads_data arbitrary: lead_ids st)
  case Nil
  show ?case by (simp add: auth_reach_same)
next
  case (Cons lead_data rest)
  obtain r st1 where one: "create_lead exec lead_data st = (r, st1)" by (cases "create_lead exec lead_data st")
  have "auth_reach tr (fst st) (fst (snd (create_lead exec lead_data st)))"
    by (rule keeps_sessionD [OF assms])
  then have step: "auth_reach tr (fst st) (fst st1)"
    using one by simp
  show ?case
  proof (cases r)
    case (Inl e)
    then show ?thesis using one step by simp
  next
    case (Inr lead_id)
    then show ?thesis
      using one
        auth_reach_trans [OF Cons.IH [of st1 "if truthy lead_id then lead_ids @ [lead_id] else lead_ids"] step]
      by simp
  qed
qed

lemma keeps_update_leads_loop:
  assumes "\<And>lead_id update_data. keeps_session tr (update_lead exec lead_id update_data)"
  shows "auth_reach tr (fst st) (fst (snd (update_leads_loop exec leads_updates results st)))"
proof (induction leads_updates arbitrary: results st)
  case Nil
  show ?case by (simp add: auth_reach_same)
next
  case (Cons item rest)
  obtain lead_id update_data where item: "item = (lead_id, update_data)" by (cases item)
  obtain r st1 where one: "update_lead exec lead_id update_data st = (r, st1)"
    by (cases "update_lead exec lead_id update_data st")
  have "auth_reach tr (fst st) (fst (snd (update_lead exec lead_id update_data st)))"
    by (rule keeps_sessionD [OF assms])
  then have step: "auth_reach tr (fst st) (fst st1)"
    using one by simp
  show ?case
  proof (cases r)
    case (Inl e)
    then show ?thesis using one step item by simp
  next
    case (Inr success)
    then show ?thesis
      using one item
        auth_reach_trans [OF Cons.IH [of st1 "AList.update lead_id success results"] step]
      by simp
  qed
qed

lemma keeps_delete_leads_loop:
  assumes "\<And>lead_id. keeps_session tr (delete_lead exec lead_id)"
  shows "auth_reach tr (fst st) (fst (snd (delete_leads_loop exec lead_ids results st)))"
proof (induction lead_ids arbitrary: results st)
  case Nil
  show ?case by (simp add: auth_reach_same)
next
  case (Cons lead_id rest)
  obtain r st1 where one: "delete_lead exec lead_id st = (r, st1)"
    by (cases "delete_lead exec lead_id st")
  have "auth_reach tr (fst st) (fst (snd (delete_lead exec lead_id st)))"
    by (rule keeps_sessionD [OF assms])
  then have step: "auth_reach tr (fst st) (fst st1)"
    using one by simp
  show ?case
  proof (cases r)
    case (Inl e)
    then show ?thesis using one step by simp
  next
    case (Inr success)
    then show ?thesis
      using one
        auth_reach_trans [OF Cons.IH [of st1 "AList.update lead_id success results"] step]
      by simp
  qed
qed

lemma keeps_create_leads_batch:
  assumes "\<And>model method args. keeps_session tr (exec model method args)"
  shows "keeps_session tr (create_leads_batch exec leads_data)"
proof (rule keeps_sessionI)
  fix s h
  have "\<And>lead_data. keeps_session tr (create_lead exec lead_data)"
    by (rule keeps_create_lead) (rule assms)
  from keeps_create_leads_loop [OF this, of "(s, h)" leads_data "[]"]
  show "auth_reach tr s (fst (snd (create_leads_batch exec leads_data (s, h))))"
    by (simp add: create_leads_batch_def try_except_state)
qed

lemma keeps_update_leads_batch:
  assumes "\<And>model method args. keeps_session tr (exec model method args)"
  shows "keeps_session tr (update_leads_batch exec leads_updates)"
proof (rule keeps_sessionI)
  fix s h
  have "\<And>lead_id update_data. keeps_session tr (update_lead exec lead_id update_data)"
    by (rule keeps_update_lead) (rule assms)
  from keeps_update_leads_loop [OF this, of "(s, h)" leads_updates "[]"]
  show "auth_reach tr s (fst (snd (update_leads_batch exec leads_updates (s, h))))"
    by (simp add: update_leads_batch_def try_except_state)
qed

lemma keeps_delete_leads_batch:
  assumes "\<And>model method args. keeps_session tr (exec model method args)"
  shows "keeps_session tr (delete_leads_batch exec lead_ids)"
proof (rule keeps_sessionI)
  fix s h
  have "\<And>lead_id. keeps_session tr (delete_lead exec lead_id)"
    by (rule keeps_delete_lead) (rule assms)
  from keeps_delete_leads_loop [OF this, of "(s, h)" lead_ids "[]"]
  show "auth_reach tr s (fst (snd (delete_leads_batch exec lead_ids (s, h))))"
    by (simp add: delete_leads_batch_def try_except_state)
qed

lemma run_op_auth_reach: "auth_reach tr (fst st) (fst (run_op tr op st))"
proof (cases op)
  case Xmlrpc_authenticate
  then show ?thesis by (simp add: keeps_sessionD [OF keeps_xmlrpc_authenticate])
next
  case Jsonrpc_authenticate
  then show ?thesis by (simp add: keeps_sessionD [OF keeps_jsonrpc_authenticate])
next
  case (Xmlrpc_execute model meth args)
  then show ?thesis by (simp add: keeps_sessionD [OF keeps_xmlrpc_execute])
next
  case (Jsonrpc_execute model meth args)
  then show ?thesis by (simp add: keeps_sessionD [OF keeps_jsonrpc_execute])
next
  case (Create_lead_xmlrpc lead_data)
  then show ?thesis
    by (simp add: create_lead_xmlrpc_def keeps_sessionD [OF keeps_create_lead [where exec = "xmlrpc_execute tr", OF keeps_xmlrpc_execute]])
next
  case (Create_lead_jsonrpc lead_data)
  then show ?thesis
    by (simp add: create_lead_jsonrpc_def keeps_sessionD [OF keeps_create_lead [where exec = "jsonrpc_execute tr", OF keeps_jsonrpc_execute]])
next
  case (Read_lead_xmlrpc lead_id field_names)
  then show ?thesis
    by (simp add: read_lead_xmlrpc_def keeps_sessionD [OF keeps_read_lead [where exec = "xmlrpc_execute tr", OF keeps_xmlrpc_execute]])
next
  case (Read_lead_jsonrpc lead_id field_names)
  then show ?thesis
    by (simp add: read_lead_jsonrpc_def keeps_sessionD [OF keeps_read_lead [where exec = "jsonrpc_execute tr", OF keeps_jsonrpc_execute]])
next
  case (Update_lead_xmlrpc lead_id lead_data)
  then show ?thesis
    by (simp add: update_lead_xmlrpc_def keeps_sessionD [OF keeps_update_lead [where exec = "xmlrpc_execute tr", OF keeps_xmlrpc_execute]])
next
  case (Update_lead_jsonrpc lead_id lead_data)
  then show ?thesis
    by (simp add: update_lead_jsonrpc_def keeps_sessionD [OF keeps_update_lead [where exec = "jsonrpc_execute tr", OF keeps_jsonrpc_execute]])
next
  case (Delete_lead_xmlrpc lead_id)
  then show ?thesis
    by (simp add: delete_lead_xmlrpc_def keeps_sessionD [OF keeps_delete_lead [where exec = "xmlrpc_execute tr", OF keeps_xmlrpc_execute]])
next
  case (Delete_lead_jsonrpc lead_id)
  then show ?thesis
    by (simp add: delete_lead_jsonrpc_def keeps_sessionD [OF keeps_delete_lead [where exec = "jsonrpc_execute tr", OF keeps_jsonrpc_execute]])
next
  case (Search_leads_xmlrpc domain offset limit order)
  then show ?thesis
    by (simp add: search_leads_xmlrpc_def keeps_sessionD [OF keeps_search_leads [where exec = "xmlrpc_execute tr", OF keeps_xmlrpc_execute]])
next
  case (Search_leads_jsonrpc domain offset limit order)
  then show ?thesis
    by (simp add: search_leads_jsonrpc_def keeps_sessionD [OF keeps_search_leads [where exec = "jsonrpc_execute tr", OF keeps_jsonrpc_execute]])
next
  case (Search_read_leads_xmlrpc domain field_names offset limit order)
  then show ?thesis
    by (simp add: search_read_leads_xmlrpc_def keeps_sessionD [OF keeps_search_read_leads [where exec = "xmlrpc_execute tr", OF keeps_xmlrpc_execute]])
next
  case (Search_read_leads_jsonrpc domain field_names offset limit order)
  then show ?thesis
    by (simp add: search_read_leads_jsonrpc_def keeps_sessionD [OF keeps_search_read_leads [where exec = "jsonrpc_execute tr", OF keeps_jsonrpc_execute]])
next
  case (Create_leads_batch_xmlrpc leads_data)
  then show ?thesis
    by (simp add: create_leads_batch_xmlrpc_def keeps_sessionD [OF keeps_create_leads_batch [of tr "xmlrpc_execute tr", OF keeps_xmlrpc_execute]])
next
  case (Create_leads_batch_jsonrpc leads_data)
  then show ?thesis
    by (simp add: create_leads_batch_jsonrpc_def keeps_sessionD [OF keeps_create_leads_batch [of tr "jsonrpc_execute tr", OF keeps_jsonrpc_execute]])
next
  case (Update_leads_batch_xmlrpc leads_updates)
  then show ?thesis
    by (simp add: update_leads_batch_xmlrpc_def keeps_sessionD [OF keeps_update_leads_batch [of tr "xmlrpc_execute tr", OF keeps_xmlrpc_execute]])
next
  case (Update_leads_batch_jsonrpc leads_updates)
  then show ?thesis
    by (simp add: update_leads_batch_jsonrpc_def keeps_sessionD [OF keeps_update_leads_batch [of tr "jsonrpc_execute tr", OF keeps_jsonrpc_execute]])
next
  case (Delete_leads_batch_xmlrpc lead_ids)
  then show ?thesis
    by (simp add: delete_leads_batch_xmlrpc_def keeps_sessionD [OF keeps_delete_leads_batch [of tr "xmlrpc_execute tr", OF keeps_xmlrpc_execute]])
next
  case (Delete_leads_batch_jsonrpc lead_ids)
  then show ?thesis
    by (simp add: delete_leads_batch_jsonrpc_def keeps_sessionD [OF keeps_delete_leads_batch [of tr "jsonrpc_execute tr", OF keeps_jsonrpc_execute]])
qed

lemma run_ops_auth_reach: "auth_reach tr (fst st) (fst (run_ops tr ops st))"
proof (induction ops arbitrary: st)
  case Nil
  show ?case by (simp add: auth_reach_same)
next
  case (Cons op ops)
  show ?case
    using auth_reach_trans [OF Cons.IH [of "run_op tr op st"] run_op_auth_reach [of tr st op]]
    by simp
qed

section \<open>Failed authentication\<close>






section \<open>Keyword arguments of the search operations\<close>

lemma set_optionals_fresh:
  assumes "''offset'' \<notin> fst ` set kwargs" "''limit'' \<notin> fst ` set kwargs" "''order'' \<notin> fst ` set kwargs"
  shows "set_optionals offset limit order kwargs =
           kwargs @ (if truthy offset then [(''offset'', offset)] else [])
                  @ (if truthy limit then [(''limit'', limit)] else [])
                  @ (if truthy order then [(''order'', order)] else [])"
proof -
  have upd: "k \<notin> fst ` set al \<Longrightarrow> AList.update k v al = al @ [(k, v)]" for k :: string and v :: pyval and al
    by (induction al) auto
  show ?thesis using assms
    by (simp add: set_optionals_def Let_def upd image_Un)
qed

text \<open>
  Claim C2 says that every optional parameter the caller supplied is in the keyword
  mapping, and that with \<^verbatim>\<open>limit=5, order="id desc"\<close> the mapping is exactly those two
  entries. The tests in the code are truth tests, so a supplied limit of 0 and a supplied
  empty order are left out like the defaults; and search-read always sends \<^verbatim>\<open>fields\<close> as
  well. The requests below are the ones that go out.
\<close>

theorem search_keyword_arguments_counterexample:
  "snd (snd (search_leads_xmlrpc serving (PList []) (PInt 0) (PInt 0) (PStr []) (demo_session, []))) =
     [Authenticate (ServerProxy ''http://localhost:8069/xmlrpc/2/common'') ''odoo'' ''admin'' ''admin'',
      ExecuteKw (ServerProxy ''http://localhost:8069/xmlrpc/2/object'') ''odoo'' (PInt 2) ''admin''
        ''crm.lead'' ''search'' [PList [], PDict []]]
   \<and> snd (snd (search_read_leads_xmlrpc serving (PList []) PNone (PInt 0) (PInt 5) (PStr ''id desc'')
                  (demo_session, []))) =
     [Authenticate (ServerProxy ''http://localhost:8069/xmlrpc/2/common'') ''odoo'' ''admin'' ''admin'',
      ExecuteKw (ServerProxy ''http://localhost:8069/xmlrpc/2/object'') ''odoo'' (PInt 2) ''admin''
        ''crm.lead'' ''search_read''
        [PList [], PDict [(''fields'', PList []), (''limit'', PInt 5), (''order'', PStr ''id desc'')]]]"
  by (simp add: search_leads_xmlrpc_def search_leads_def search_leads_body_def
      search_read_leads_xmlrpc_def search_read_leads_def search_read_leads_body_def counted_def
      search_kwargs_def search_read_kwargs_def set_optionals_def eval_defs serving_def)

text \<open>
  Claim C2, as the code has it. Each of offset, limit and order is in the keyword mapping
  passed to execute exactly when its value is truthy, and then with the value supplied;
  a falsy value (the defaults 0 and null, but also a supplied limit of 0 or an empty
  order) is left out. The mapping of search-read holds \<^verbatim>\<open>fields\<close> before them in every
  case: the list supplied, or the empty list for the default. With limit 5, order
  \<^verbatim>\<open>id desc\<close> and the rest at default, search passes exactly these two entries, and
  search-read passes them after \<^verbatim>\<open>fields\<close>.
\<close>

theorem search_keyword_arguments:
  "search_kwargs offset limit order =
     (if truthy offset then [(''offset'', offset)] else [])
     @ (if truthy limit then [(''limit'', limit)] else [])
     @ (if truthy order then [(''order'', order)] else [])
   \<and> search_read_kwargs field_names offset limit order =
     [(''fields'', if field_names = PNone then PList [] else field_names)]
     @ (if truthy offset then [(''offset'', offset)] else [])
     @ (if truthy limit then [(''limit'', limit)] else [])
     @ (if truthy order then [(''order'', order)] else [])
   \<and> search_leads_xmlrpc tr domain offset limit order st =
       try_except (\<lambda>st. counted (xmlrpc_execute tr ''crm.lead'' ''search''
                                   [domain, PDict (search_kwargs offset limit order)] st)) (PList []) st
   \<and> search_leads_jsonrpc tr domain offset limit order st =
       try_except (\<lambda>st. counted (jsonrpc_execute tr ''crm.lead'' ''search''
                                   [domain, PDict (search_kwargs offset limit order)] st)) (PList []) st
   \<and> search_read_leads_xmlrpc tr domain field_names offset limit order st =
       try_except (\<lambda>st. counted (xmlrpc_execute tr ''crm.lead'' ''search_read''
                                   [domain, PDict (search_read_kwargs field_names offset limit order)] st))
                  (PList []) st
   \<and> search_read_leads_jsonrpc tr domain field_names offset limit order st =
       try_except (\<lambda>st. counted (jsonrpc_execute tr ''crm.lead'' ''search_read''
                                   [domain, PDict (search_read_kwargs field_names offset limit order)] st))
                  (PList []) st
   \<and> search_kwargs (PInt 0) (PInt 5) (PStr ''id desc'') = [(''limit'', PInt 5), (''order'', PStr ''id desc'')]
   \<and> search_read_kwargs PNone (PInt 0) (PInt 5) (PStr ''id desc'') =
       [(''fields'', PList []), (''limit'', PInt 5), (''order'', PStr ''id desc'')]"
proof -
  have a: "search_kwargs offset limit order =
     (if truthy offset then [(''offset'', offset)] else [])
     @ (if truthy limit then [(''limit'', limit)] else [])
     @ (if truthy order then [(''order'', order)] else [])" for offset limit order
    unfolding search_kwargs_def by (subst set_optionals_fresh) simp_all
  have b: "search_read_kwargs field_names offset limit order =
     [(''fields'', if field_names = PNone then PList [] else field_names)]
     @ (if truthy offset then [(''offset'', offset)] else [])
     @ (if truthy limit then [(''limit'', limit)] else [])
     @ (if truthy order then [(''order'', order)] else [])" for field_names offset limit order
    unfolding search_read_kwargs_def by (subst set_optionals_fresh) simp_all
  have c: "search_kwargs (PInt 0) (PInt 5) (PStr ''id desc'') = [(''limit'', PInt 5), (''order'', PStr ''id desc'')]"
    by (simp add: a)
  have d: "search_read_kwargs PNone (PInt 0) (PInt 5) (PStr ''id desc'') =
       [(''fields'', PList []), (''limit'', PInt 5), (''order'', PStr ''id desc'')]"
    by (simp add: b)
  have e: "search_leads exec domain offset limit order st =
       try_except (\<lambda>st. counted (exec ''crm.lead'' ''search''
                                   [domain, PDict (search_kwargs offset limit order)] st)) (PList []) st" for exec
    by (simp add: search_leads_def search_leads_body_def try_except_def)
  have f: "search_read_leads exec domain field_names offset limit order st =
       try_except (\<lambda>st. counted (exec ''crm.lead'' ''search_read''
                                   [domain, PDict (search_read_kwargs field_names offset limit order)] st))
                  (PList []) st" for exec
    by (simp add: search_read_leads_def search_read_leads_body_def try_except_def)
  show ?thesis
    unfolding search_leads_xmlrpc_def search_leads_jsonrpc_def search_read_leads_xmlrpc_def
      search_read_leads_jsonrpc_def
    using a [of offset limit order] b [of field_names offset limit order] c d
      e [of "xmlrpc_execute tr"] e [of "jsonrpc_execute tr"]
      f [of "xmlrpc_execute tr"] f [of "jsonrpc_execute tr"]
    by (intro conjI) (simp_all only:)
qed

theorem search_keyword_arguments_witness:
  "truthy (PInt 5) \<and> truthy (PStr ''id desc'') \<and> \<not> truthy (PInt 0) \<and> \<not> truthy PNone
   \<and> search_kwargs (PInt 0) (PInt 5) PNone = [(''limit'', PInt 5)]
   \<and> search_read_kwargs (PList [PStr ''name'']) (PInt 10) PNone (PStr ''id desc'') =
       [(''fields'', PList [PStr ''name'']), (''offset'', PInt 10), (''order'', PStr ''id desc'')]"
  using search_keyword_arguments [of "PInt 0" "PInt 5" PNone]
    search_keyword_arguments [of "PInt 10" PNone "PStr ''id desc''" "PList [PStr ''name'']"]
  by simp

section \<open>Batch update and batch delete\<close>

text \<open>
  Claim C3 gives the mapping of a batch exactly \<open>n\<close> keys for \<open>n\<close> inputs. The mapping is
  keyed by identifier, so an identifier that occurs twice in the list of a batch delete
  has one key: two inputs, one entry.
\<close>

theorem batch_mapping_keys_counterexample:
  "fst (delete_leads_batch_xmlrpc serving [5, 5] (demo_session, [])) = Inr [(5, PBool True)]
   \<and> length [(5 :: int, PBool True)] \<noteq> length [5 :: int, 5]"
  by (simp add: op_defs eval_defs serving_def)

text \<open>
  Claim C3, as the code has it. A batch update (over the items of a dictionary) and a
  batch delete (over a list of identifiers) run the single-record operation once per
  input, in the order given and whatever the earlier ones returned: the yardstick \<open>runs\<close>,
  with one outcome per input. The mapping returned has exactly the input identifiers as
  its keys, each once; the value at a key is what the single-record operation returned
  for that identifier (for its last occurrence when it is repeated); and when the
  identifiers are pairwise different, as the keys of a dictionary are, the mapping has
  one entry per input, in order. What kind of value the single-record operation returns
  is not part of this statement.
\<close>

theorem batch_mapping_one_entry_per_identifier:
  "(\<exists>outs results.
      fst (runs (\<lambda>(lead_id, update_data). update_lead_xmlrpc tr lead_id update_data) leads_updates st) = map Inr outs
      \<and> length outs = length leads_updates
      \<and> update_leads_batch_xmlrpc tr leads_updates st =
          (Inr results, snd (runs (\<lambda>(lead_id, update_data). update_lead_xmlrpc tr lead_id update_data) leads_updates st))
      \<and> results = AList.updates (map fst leads_updates) outs []
      \<and> fst ` set results = set (map fst leads_updates)
      \<and> distinct (map fst results)
      \<and> map_of results = Map.empty (map fst leads_updates [\<mapsto>] outs)
      \<and> (distinct (map fst leads_updates) \<longrightarrow> results = zip (map fst leads_updates) outs))
   \<and> (\<exists>outs results.
      fst (runs (\<lambda>(lead_id, update_data). update_lead_jsonrpc tr lead_id update_data) leads_updates st) = map Inr outs
      \<and> length outs = length leads_updates
      \<and> update_leads_batch_jsonrpc tr leads_updates st =
          (Inr results, snd (runs (\<lambda>(lead_id, update_data). update_lead_jsonrpc tr lead_id update_data) leads_updates st))
      \<and> results = AList.updates (map fst leads_updates) outs []
      \<and> fst ` set results = set (map fst leads_updates)
      \<and> distinct (map fst results)
      \<and> map_of results = Map.empty (map fst leads_updates [\<mapsto>] outs)
      \<and> (distinct (map fst leads_updates) \<longrightarrow> results = zip (map fst leads_updates) outs))
   \<and> (\<exists>outs results.
      fst (runs (delete_lead_xmlrpc tr) lead_ids st) = map Inr outs
      \<and> length outs = length lead_ids
      \<and> delete_leads_batch_xmlrpc tr lead_ids st = (Inr results, snd (runs (delete_lead_xmlrpc tr) lead_ids st))
      \<and> results = AList.updates lead_ids outs []
      \<and> fst ` set results = set lead_ids
      \<and> distinct (map fst results)
      \<and> map_of results = Map.empty (lead_ids [\<mapsto>] outs)
      \<and> (distinct lead_ids \<longrightarrow> results = zip lead_ids outs))
   \<and> (\<exists>outs results.
      fst (runs (delete_lead_jsonrpc tr) lead_ids st) = map Inr outs
      \<and> length outs = length lead_ids
      \<and> delete_leads_batch_jsonrpc tr lead_ids st = (Inr results, snd (runs (delete_lead_jsonrpc tr) lead_ids st))
      \<and> results = AList.updates lead_ids outs []
      \<and> fst ` set results = set lead_ids
      \<and> distinct (map fst results)
      \<and> map_of results = Map.empty (lead_ids [\<mapsto>] outs)
      \<and> (distinct lead_ids \<longrightarrow> results = zip lead_ids outs))"
  unfolding update_leads_batch_xmlrpc_def update_leads_batch_jsonrpc_def
    delete_leads_batch_xmlrpc_def delete_leads_batch_jsonrpc_def
    update_lead_xmlrpc_def update_lead_jsonrpc_def delete_lead_xmlrpc_def delete_lead_jsonrpc_def
  by (intro conjI update_leads_batch_runs delete_leads_batch_runs)

theorem batch_mapping_one_entry_per_identifier_witness:
  "distinct [5 :: int, 13, 6]
   \<and> fst (runs (delete_lead_xmlrpc serving) [5, 13, 6] (demo_session, [])) =
       [Inr (PBool True), Inr PNone, Inr (PBool True)]
   \<and> fst (delete_leads_batch_xmlrpc serving [5, 13, 6] (demo_session, [])) =
       Inr [(5, PBool True), (13, PNone), (6, PBool True)]
   \<and> distinct (map fst [(5 :: int, PDict [(''description'', PStr ''a'')]), (6, PDict [(''description'', PStr ''b'')])])
   \<and> fst (update_leads_batch_xmlrpc serving
            [(5, PDict [(''description'', PStr ''a'')]), (6, PDict [(''description'', PStr ''b'')])]
            (demo_session, [])) =
       Inr [(5, PBool True), (6, PBool True)]"
  using batch_mapping_one_entry_per_identifier
          [of serving "[(5, PDict [(''description'', PStr ''a'')]), (6, PDict [(''description'', PStr ''b'')])]"
              "(demo_session, [])" "[5, 13, 6]"]
  by (simp add: op_defs eval_defs serving_def)

section \<open>Batch create\<close>

text \<open>
  Claim C4. A batch create runs the single-record create once per input, in the order
  given and whatever the earlier ones returned (this is the yardstick \<open>runs\<close>, and its
  list has one entry per input). An input succeeds when its create returns an
  identifier, that is, a truthy value (the test of the code, \<^verbatim>\<open>if lead_id:\<close>). The batch
  returns the identifiers of the successful inputs, in the order of those inputs, and
  nothing else; no exception reaches the caller.
\<close>

theorem batch_create_keeps_successes_in_order:
  "(\<exists>outs. fst (runs (create_lead_xmlrpc tr) leads_data st) = map Inr outs
          \<and> length outs = length leads_data
          \<and> create_leads_batch_xmlrpc tr leads_data st =
              (Inr (filter truthy outs), snd (runs (create_lead_xmlrpc tr) leads_data st)))
   \<and> (\<exists>outs. fst (runs (create_lead_jsonrpc tr) leads_data st) = map Inr outs
          \<and> length outs = length leads_data
          \<and> create_leads_batch_jsonrpc tr leads_data st =
              (Inr (filter truthy outs), snd (runs (create_lead_jsonrpc tr) leads_data st)))"
  unfolding create_leads_batch_xmlrpc_def create_leads_batch_jsonrpc_def
    create_lead_xmlrpc_def create_lead_jsonrpc_def
  using create_leads_batch_runs [of "xmlrpc_execute tr" leads_data st]
    create_leads_batch_runs [of "jsonrpc_execute tr" leads_data st]
  by blast

theorem batch_create_keeps_successes_in_order_witness:
  "fst (runs (create_lead_xmlrpc serving)
          [PDict [(''name'', PStr ''Batch Lead 1'')], PNone, PDict [(''name'', PStr ''Batch Lead 2'')]]
          (demo_session, [])) = [Inr (PInt 1), Inr PNone, Inr (PInt 3)]
   \<and> fst (create_leads_batch_xmlrpc serving
          [PDict [(''name'', PStr ''Batch Lead 1'')], PNone, PDict [(''name'', PStr ''Batch Lead 2'')]]
          (demo_session, [])) = Inr [PInt 1, PInt 3]"
  using batch_create_keeps_successes_in_order
          [of serving "[PDict [(''name'', PStr ''Batch Lead 1'')], PNone, PDict [(''name'', PStr ''Batch Lead 2'')]]"
              "(demo_session, [])"]
  by (simp add: op_defs eval_defs serving_def)

section \<open>Failure values of the single-record operations\<close>

text \<open>What the single-record operations return, in terms of what their execute returned.\<close>

lemma create_lead_result:
  "fst (create_lead exec lead_data st) =
     (case fst (exec ''crm.lead'' ''create'' [PList [lead_data]] st) of Inl e \<Rightarrow> Inr PNone | Inr v \<Rightarrow> Inr v)"
  by (auto simp: create_lead_def create_lead_body_def try_except_def split: prod.splits sum.splits)

lemma update_lead_result:
  "fst (update_lead exec lead_id lead_data st) =
     (case fst (exec ''crm.lead'' ''write'' [PList [PInt lead_id], lead_data] st) of
        Inl e \<Rightarrow> Inr (PBool False) | Inr v \<Rightarrow> Inr v)"
  by (auto simp: update_lead_def update_lead_body_def try_except_def split: prod.splits sum.splits)

lemma delete_lead_result:
  "fst (delete_lead exec lead_id st) =
     (case fst (exec ''crm.lead'' ''unlink'' [PList [PInt lead_id]] st) of
        Inl e \<Rightarrow> Inr (PBool False) | Inr v \<Rightarrow> Inr v)"
  by (auto simp: delete_lead_def delete_lead_body_def try_except_def split: prod.splits sum.splits)

lemma read_lead_result:
  "fst (read_lead exec lead_id field_names st) =
     (case fst (exec ''crm.lead'' ''read''
                  [PList [PInt lead_id], PDict [(''fields'', if field_names = PNone then PList [] else field_names)]] st) of
        Inr (PList (record # records)) \<Rightarrow> Inr record
      | Inr (PStr (c # cs)) \<Rightarrow> Inr (PStr [c])
      | _ \<Rightarrow> Inr PNone)"
  by (auto simp: read_lead_def read_lead_body_def try_except_def Let_def
           split: prod.splits sum.splits pyval.splits list.splits)

lemma create_and_read_return_null_on_failure:
  "(fst (exec ''crm.lead'' ''create'' [PList [lead_data]] st) = Inr PNone
      \<longrightarrow> fst (create_lead exec lead_data st) = Inr PNone)
   \<and> (fst (exec ''crm.lead'' ''read''
              [PList [PInt lead_id], PDict [(''fields'', if field_names = PNone then PList [] else field_names)]] st)
          \<in> {Inr PNone, Inr (PList []), Inr (PBool False)}
      \<longrightarrow> fst (read_lead exec lead_id field_names st) = Inr PNone)"
  by (auto simp: create_lead_result read_lead_result)

lemma update_and_delete_return_null_on_failure:
  "(fst (exec ''crm.lead'' ''write'' [PList [PInt lead_id], lead_data] st) = Inr PNone
      \<longrightarrow> fst (update_lead exec lead_id lead_data st) = Inr PNone)
   \<and> (fst (exec ''crm.lead'' ''unlink'' [PList [PInt lead_id]] st) = Inr PNone
      \<longrightarrow> fst (delete_lead exec lead_id st) = Inr PNone)"
  by (auto simp: update_lead_result delete_lead_result)

text \<open>
  Claim C5. On a failed execute, create and read return the null value, as the claim
  says (the two lemmas above; read also returns null for an empty result, when the
  identifier does not resolve). Update and delete are documented to return a boolean,
  \<^verbatim>\<open>True if successful, False otherwise\<close>, and their handlers return \<^verbatim>\<open>False\<close>; but they
  return the result of execute as it is, and execute has already turned the failure into
  the null value. On the demonstration session with every connection refused, update and
  delete return null, not a boolean.
\<close>

theorem update_and_delete_return_null_when_refused:
  "fst (update_lead_xmlrpc refusing 7 (PDict [(''description'', PStr ''updated'')]) (demo_session, [])) = Inr PNone
   \<and> fst (update_lead_jsonrpc refusing 7 (PDict [(''description'', PStr ''updated'')]) (demo_session, [])) = Inr PNone
   \<and> fst (delete_lead_xmlrpc refusing 7 (demo_session, [])) = Inr PNone
   \<and> fst (delete_lead_jsonrpc refusing 7 (demo_session, [])) = Inr PNone
   \<and> fst (create_lead_xmlrpc refusing (PDict [(''name'', PStr ''Test Lead'')]) (demo_session, [])) = Inr PNone
   \<and> fst (read_lead_xmlrpc refusing 7 PNone (demo_session, [])) = Inr PNone"
  by (simp add: op_defs eval_defs refusing_def)

section \<open>Exceptions and error payloads\<close>

lemma no_operation_raises:
  "(\<exists>v. fst (xmlrpc_authenticate tr st) = Inr v)
   \<and> (\<exists>v. fst (jsonrpc_authenticate tr st) = Inr v)
   \<and> (\<exists>v. fst (xmlrpc_execute tr model method args st) = Inr v)
   \<and> (\<exists>v. fst (jsonrpc_execute tr model method args st) = Inr v)
   \<and> (\<exists>v. fst (create_lead_xmlrpc tr lead_data st) = Inr v)
   \<and> (\<exists>v. fst (create_lead_jsonrpc tr lead_data st) = Inr v)
   \<and> (\<exists>v. fst (read_lead_xmlrpc tr lead_id field_names st) = Inr v)
   \<and> (\<exists>v. fst (read_lead_jsonrpc tr lead_id field_names st) = Inr v)
   \<and> (\<exists>v. fst (update_lead_xmlrpc tr lead_id lead_data st) = Inr v)
   \<and> (\<exists>v. fst (update_lead_jsonrpc tr lead_id lead_data st) = Inr v)
   \<and> (\<exists>v. fst (delete_lead_xmlrpc tr lead_id st) = Inr v)
   \<and> (\<exists>v. fst (delete_lead_jsonrpc tr lead_id st) = Inr v)
   \<and> (\<exists>v. fst (search_leads_xmlrpc tr domain offset limit order st) = Inr v)
   \<and> (\<exists>v. fst (search_leads_jsonrpc tr domain offset limit order st) = Inr v)
   \<and> (\<exists>v. fst (search_read_leads_xmlrpc tr domain field_names offset limit order st) = Inr v)
   \<and> (\<exists>v. fst (search_read_leads_jsonrpc tr domain field_names offset limit order st) = Inr v)
   \<and> (\<exists>v. fst (create_leads_batch_xmlrpc tr leads_data st) = Inr v)
   \<and> (\<exists>v. fst (create_leads_batch_jsonrpc tr leads_data st) = Inr v)
   \<and> (\<exists>v. fst (update_leads_batch_xmlrpc tr leads_updates st) = Inr v)
   \<and> (\<exists>v. fst (update_leads_batch_jsonrpc tr leads_updates st) = Inr v)
   \<and> (\<exists>v. fst (delete_leads_batch_xmlrpc tr lead_ids st) = Inr v)
   \<and> (\<exists>v. fst (delete_leads_batch_jsonrpc tr lead_ids st) = Inr v)"
  unfolding xmlrpc_authenticate_def jsonrpc_authenticate_def xmlrpc_execute_def jsonrpc_execute_def
    create_lead_xmlrpc_def create_lead_jsonrpc_def create_lead_def
    read_lead_xmlrpc_def read_lead_jsonrpc_def read_lead_def
    update_lead_xmlrpc_def update_lead_jsonrpc_def update_lead_def
    delete_lead_xmlrpc_def delete_lead_jsonrpc_def delete_lead_def
    search_leads_xmlrpc_def search_leads_jsonrpc_def search_leads_def
    search_read_leads_xmlrpc_def search_read_leads_jsonrpc_def search_read_leads_def
    create_leads_batch_xmlrpc_def create_leads_batch_jsonrpc_def create_leads_batch_def
    update_leads_batch_xmlrpc_def update_leads_batch_jsonrpc_def update_leads_batch_def
    delete_leads_batch_xmlrpc_def delete_leads_batch_jsonrpc_def delete_leads_batch_def
  by (intro conjI try_except_returns)

text \<open>
  Claim C6. No operation lets an exception reach its caller (the lemma below). On a
  protocol-level error, here a fault over XML-RPC and an \<^verbatim>\<open>error\<close> member over JSON-RPC
  after a successful login, execute returns null; update and delete then return that
  null, not their failure value \<^verbatim>\<open>False\<close>, and the batches built on them carry it in
  their mappings.
\<close>

theorem update_and_delete_return_null_on_error_payload:
  "fst (jsonrpc_execute erroring ''crm.lead'' ''write'' [PList [PInt 7], PDict [(''description'', PStr ''updated'')]]
          (demo_session, [])) = Inr PNone
   \<and> fst (update_lead_jsonrpc erroring 7 (PDict [(''description'', PStr ''updated'')]) (demo_session, [])) = Inr PNone
   \<and> fst (delete_lead_jsonrpc erroring 7 (demo_session, [])) = Inr PNone
   \<and> fst (update_lead_xmlrpc erroring 7 (PDict [(''description'', PStr ''updated'')]) (demo_session, [])) = Inr PNone
   \<and> fst (delete_lead_xmlrpc erroring 7 (demo_session, [])) = Inr PNone
   \<and> fst (update_leads_batch_jsonrpc erroring [(7, PDict [(''description'', PStr ''updated'')])] (demo_session, []))
       = Inr [(7, PNone)]
   \<and> fst (delete_leads_batch_xmlrpc erroring [7, 8] (demo_session, [])) = Inr [(7, PNone), (8, PNone)]"
  by (simp add: op_defs eval_defs erroring_def)

section \<open>The extraction parse\<close>

lemma brace_delimited_closing: "brace_delimited text \<Longrightarrow> CHR ''}'' \<in> set text"
  by (induction "text") auto

lemma brace_delimited_first_opening:
  "brace_delimited text \<longleftrightarrow>
     (case dropWhile (\<lambda>c. c \<noteq> CHR ''{'') text of [] \<Rightarrow> False | c # rest \<Rightarrow> CHR ''}'' \<in> set rest)"
  by (induction "text") (auto dest: brace_delimited_closing)

lemma brace_delimited_substring:
  "brace_delimited text \<longleftrightarrow> (\<exists>pre mid post. text = pre @ [CHR ''{''] @ mid @ [CHR ''}''] @ post)"
proof
  show "brace_delimited text \<Longrightarrow> \<exists>pre mid post. text = pre @ [CHR ''{''] @ mid @ [CHR ''}''] @ post"
  proof (induction "text")
    case Nil
    then show ?case by simp
  next
    case (Cons c cs)
    show ?case
    proof (cases "c = CHR ''{'' \<and> CHR ''}'' \<in> set cs")
      case True
      then obtain mid post where "cs = mid @ CHR ''}'' # post"
        by (meson split_list)
      with True have "c # cs = [] @ [CHR ''{''] @ mid @ [CHR ''}''] @ post" by simp
      then show ?thesis by blast
    next
      case False
      with Cons.prems have "brace_delimited cs" by auto
      with Cons.IH obtain pre mid post where "cs = pre @ [CHR ''{''] @ mid @ [CHR ''}''] @ post"
        by blast
      then have "c # cs = (c # pre) @ [CHR ''{''] @ mid @ [CHR ''}''] @ post" by simp
      then show ?thesis by blast
    qed
  qed
next
  assume "\<exists>pre mid post. text = pre @ [CHR ''{''] @ mid @ [CHR ''}''] @ post"
  then obtain pre mid post where t: "text = pre @ [CHR ''{''] @ mid @ [CHR ''}''] @ post"
    by blast
  show "brace_delimited text"
    unfolding t by (induction pre) auto
qed

lemma re_search_braces_None: "re_search_braces text = None \<longleftrightarrow> \<not> brace_delimited text"
proof (cases "dropWhile (\<lambda>c. c \<noteq> CHR ''{'') text")
  case Nil
  show ?thesis
    unfolding re_search_braces_def brace_delimited_first_opening Nil by simp
next
  case (Cons c rest)
  have "dropWhile (\<lambda>c. c \<noteq> CHR ''}'') (rev rest) = [] \<longleftrightarrow> CHR ''}'' \<notin> set rest"
    by (auto simp: dropWhile_eq_Nil_conv)
  then show ?thesis
    unfolding re_search_braces_def brace_delimited_first_opening Cons by (simp add: Let_def)
qed

lemma re_search_braces_example: "re_search_braces example_response = Some example_object"
  by (simp add: re_search_braces_def example_response_def example_object_def)

lemma json_reader_example: "json_reader example_object = Inr example_parsed"
  by (simp add: json_reader_def example_object_def example_parsed_def is_space_def is_digit_def
      is_plain_def plain_number_def)

text \<open>
  Claim C7. On the answer of the test, the pattern search yields exactly the embedded
  JSON object, with nothing around it, and the block hands that text to the JSON reader:
  the structure it stores is what the reader returns for the embedded object, so it is
  the object of the test whenever the reader reads it as that. On an answer without a
  brace-delimited substring there is no match, the block shows the message that the
  extraction failed, leaves the lead information as it was, and sends no request at
  all, so no create call is attempted.
\<close>

theorem extraction_parses_the_embedded_object:
  "re_search_braces example_response = Some example_object
   \<and> extraction_block json_loads tr cfg (Inr example_response) lead_info h =
       (case json_loads example_object of
          Inl e \<Rightarrow> (Error_extracting e, lead_info, h)
        | Inr extracted \<Rightarrow>
            (fst (connect_to_odoo tr cfg extracted h), extracted, snd (connect_to_odoo tr cfg extracted h)))
   \<and> (json_loads example_object = Inr example_parsed
        \<longrightarrow> fst (snd (extraction_block json_loads tr cfg (Inr example_response) lead_info h)) = example_parsed)
   \<and> (\<not> brace_delimited text
        \<longrightarrow> re_search_braces text = None
            \<and> extraction_block json_loads tr cfg (Inr text) lead_info h = (Failed_to_extract, lead_info, h))"
proof (intro conjI impI)
  show "re_search_braces example_response = Some example_object"
    by (rule re_search_braces_example)
  show "extraction_block json_loads tr cfg (Inr example_response) lead_info h =
       (case json_loads example_object of
          Inl e \<Rightarrow> (Error_extracting e, lead_info, h)
        | Inr extracted \<Rightarrow>
            (fst (connect_to_odoo tr cfg extracted h), extracted, snd (connect_to_odoo tr cfg extracted h)))"
    by (simp add: extraction_block_def re_search_braces_example split: sum.splits prod.splits)
  show "fst (snd (extraction_block json_loads tr cfg (Inr example_response) lead_info h)) = example_parsed"
    if "json_loads example_object = Inr example_parsed"
    using that by (simp add: extraction_block_def re_search_braces_example split: prod.splits)
  show "re_search_braces text = None" if "\<not> brace_delimited text"
    using that by (simp add: re_search_braces_None)
  show "extraction_block json_loads tr cfg (Inr text) lead_info h = (Failed_to_extract, lead_info, h)"
    if "\<not> brace_delimited text"
  proof -
    from that have "re_search_braces text = None" by (simp add: re_search_braces_None)
    then show ?thesis by (simp add: extraction_block_def)
  qed
qed

theorem extraction_parses_the_embedded_object_witness:
  "json_reader example_object = Inr example_parsed
   \<and> extraction_block json_reader rejecting example_config (Inr example_response) initial_lead_info [] =
       (Authentication_failed,
        PDict [(''name'', PStr ''Alice''), (''email'', PStr ''a@x.com''), (''phone'', PNone),
               (''requirements'', PStr ''CRM demo'')],
        [Authenticate (ServerProxy ''http://localhost:8069/xmlrpc/2/common'') ''odoo'' ''admin'' ''admin''])
   \<and> \<not> brace_delimited ''Sorry, I could not find the details.''
   \<and> extraction_block json_reader rejecting example_config (Inr ''Sorry, I could not find the details.'')
         initial_lead_info [] =
       (Failed_to_extract, initial_lead_info, [])"
  using extraction_parses_the_embedded_object
          [of json_reader rejecting example_config initial_lead_info "[]"
              "''Sorry, I could not find the details.''"]
  by (simp add: json_reader_example connect_to_odoo_def connect_to_odoo_body_def
      odoo_url_def example_config_def example_parsed_def rejecting_def Let_def)

section \<open>Implicit authentication\<close>

lemma jsonrpc_dispatch_spelled_out:
  "try_except (jsonrpc_dispatch tr model method args) PNone (s1, h1) =
     ((case requests_post tr h1 (HttpPost (jsonrpc_url s1)
                 (PDict [(''jsonrpc'', PStr ''2.0''),
                         (''method'', PStr ''call''),
                         (''params'', PDict [(''service'', PStr ''object''),
                                            (''method'', PStr ''execute_kw''),
                                            (''args'', PList [PStr (db s1), uid s1, PStr (password s1),
                                                             PStr model, PStr method, PList args])]),
                         (''id'', PInt (time_time tr h1))])
                 (case session_id s1 of
                    None \<Rightarrow> []
                  | Some sid \<Rightarrow> if sid \<noteq> [] then [(''session_id'', sid)] else [])) of
                 Inl e \<Rightarrow> Inr PNone
               | Inr response \<Rightarrow>
                   if status_code response = 200
                   then (case json response of
                           Inl e \<Rightarrow> Inr PNone
                         | Inr result \<Rightarrow>
                             (case py_in ''result'' result of
                                Inl e \<Rightarrow> Inr PNone
                              | Inr True \<Rightarrow>
                                  (case py_getitem result ''result'' of
                                     Inl e \<Rightarrow> Inr PNone
                                   | Inr v \<Rightarrow> Inr v)
                              | Inr False \<Rightarrow> Inr PNone))
                   else Inr PNone),
      s1,
      h1 @ [HttpPost (jsonrpc_url s1)
                 (PDict [(''jsonrpc'', PStr ''2.0''),
                         (''method'', PStr ''call''),
                         (''params'', PDict [(''service'', PStr ''object''),
                                            (''method'', PStr ''execute_kw''),
                                            (''args'', PList [PStr (db s1), uid s1, PStr (password s1),
                                                             PStr model, PStr method, PList args])]),
                         (''id'', PInt (time_time tr h1))])
                 (case session_id s1 of
                    None \<Rightarrow> []
                  | Some sid \<Rightarrow> if sid \<noteq> [] then [(''session_id'', sid)] else [])])"
  by (auto simp: jsonrpc_dispatch_def try_except_def Let_def execute_payload_def session_cookies_def
           split: sum.splits bool.splits)

text \<open>
  Claim C8. An execute on a session that is not yet authenticated (for XML-RPC: no
  truthy user id or no models proxy; for JSON-RPC: no truthy user id) first runs the
  authenticate of its transport, with all its effects on the session and on the requests
  sent. When that authenticate fails, execute returns the null value and sends nothing
  more: the requests sent are those of the authenticate alone. When it succeeds, execute
  sends the method call with the user id that the authenticate has just stored, written
  out here as the request itself (database, user id, password, model, method and
  arguments, in this order), and returns what the answer to that request holds.
\<close>

theorem execute_authenticates_implicitly:
  "(\<not> truthy (uid s) \<or> xmlrpc_models s = None \<longrightarrow>
      (\<exists>ok s1 h1.
         xmlrpc_authenticate tr (s, h) = (Inr ok, s1, h1)
         \<and> (h1 = h \<or> (\<exists>p. h1 = h @ [Authenticate p (db s) (username s) (password s)]))
         \<and> (\<not> ok \<longrightarrow> xmlrpc_execute tr model method args (s, h) = (Inr PNone, s1, h1))
         \<and> (ok \<longrightarrow> (\<exists>q. xmlrpc_models s1 = Some q \<and> truthy (uid s1)
         \<and> xmlrpc_execute tr model method args (s, h) =
             (case xmlrpc_call tr h1 (ExecuteKw q (db s1) (uid s1) (password s1) model method args) of
                Inl e \<Rightarrow> Inr PNone | Inr v \<Rightarrow> Inr v,
              s1, h1 @ [ExecuteKw q (db s1) (uid s1) (password s1) model method args])))))
   \<and> (\<not> truthy (uid s) \<longrightarrow>
      (\<exists>ok s1 h1.
         jsonrpc_authenticate tr (s, h) = (Inr ok, s1, h1)
         \<and> h1 = h @ [HttpPost (jsonrpc_url s)
                       (PDict [(''jsonrpc'', PStr ''2.0''),
                               (''method'', PStr ''call''),
                               (''params'', PDict [(''service'', PStr ''common''),
                                                  (''method'', PStr ''login''),
                                                  (''args'', PList [PStr (db s), PStr (username s),
                                                                   PStr (password s)])]),
                               (''id'', PInt 1)])
                       []]
         \<and> (\<not> ok \<longrightarrow> jsonrpc_execute tr model method args (s, h) = (Inr PNone, s1, h1))
         \<and> (ok \<longrightarrow> truthy (uid s1)
         \<and> jsonrpc_execute tr model method args (s, h) =
             try_except (jsonrpc_dispatch tr model method args) PNone (s1, h1)
         \<and> jsonrpc_execute tr model method args (s, h) =
             ((case requests_post tr h1 (HttpPost (jsonrpc_url s1)
                 (PDict [(''jsonrpc'', PStr ''2.0''),
                         (''method'', PStr ''call''),
                         (''params'', PDict [(''service'', PStr ''object''),
                                            (''method'', PStr ''execute_kw''),
                                            (''args'', PList [PStr (db s1), uid s1, PStr (password s1),
                                                             PStr model, PStr method, PList args])]),
                         (''id'', PInt (time_time tr h1))])
                 (case session_id s1 of
                    None \<Rightarrow> []
                  | Some sid \<Rightarrow> if sid \<noteq> [] then [(''session_id'', sid)] else [])) of
                 Inl e \<Rightarrow> Inr PNone
               | Inr response \<Rightarrow>
                   if status_code response = 200
                   then (case json response of
                           Inl e \<Rightarrow> Inr PNone
                         | Inr result \<Rightarrow>
                             (case py_in ''result'' result of
                                Inl e \<Rightarrow> Inr PNone
                              | Inr True \<Rightarrow>
                                  (case py_getitem result ''result'' of
                                     Inl e \<Rightarrow> Inr PNone
                                   | Inr v \<Rightarrow> Inr v)
                              | Inr False \<Rightarrow> Inr PNone))
                   else Inr PNone),
              s1,
              h1 @ [HttpPost (jsonrpc_url s1)
                 (PDict [(''jsonrpc'', PStr ''2.0''),
                         (''method'', PStr ''call''),
                         (''params'', PDict [(''service'', PStr ''object''),
                                            (''method'', PStr ''execute_kw''),
                                            (''args'', PList [PStr (db s1), uid s1, PStr (password s1),
                                                             PStr model, PStr method, PList args])]),
                         (''id'', PInt (time_time tr h1))])
                 (case session_id s1 of
                    None \<Rightarrow> []
                  | Some sid \<Rightarrow> if sid \<noteq> [] then [(''session_id'', sid)] else [])]))))"
proof (intro conjI impI)
  assume need: "\<not> truthy (uid s) \<or> xmlrpc_models s = None"
  obtain ok where ok: "fst (xmlrpc_authenticate tr (s, h)) = Inr ok"
    using xmlrpc_authenticate_bool by blast
  obtain s1 h1 where r: "xmlrpc_authenticate tr (s, h) = (Inr ok, s1, h1)"
    using ok by (cases "xmlrpc_authenticate tr (s, h)") auto
  have hist: "h1 = h \<or> (\<exists>p. h1 = h @ [Authenticate p (db s) (username s) (password s)])"
    using xmlrpc_authenticate_history [of tr s h] r by simp
  have fail: "\<not> ok \<longrightarrow> xmlrpc_execute tr model method args (s, h) = (Inr PNone, s1, h1)"
    using xmlrpc_execute_after_failed_authenticate [OF need] r by simp
  have succ: "ok \<longrightarrow>
      (\<exists>q. xmlrpc_models s1 = Some q \<and> truthy (uid s1)
         \<and> xmlrpc_execute tr model method args (s, h) =
             (case xmlrpc_call tr h1 (ExecuteKw q (db s1) (uid s1) (password s1) model method args) of
                Inl e \<Rightarrow> Inr PNone | Inr v \<Rightarrow> Inr v,
              s1, h1 @ [ExecuteKw q (db s1) (uid s1) (password s1) model method args]))"
  proof
    assume ok
    with r have r': "xmlrpc_authenticate tr (s, h) = (Inr True, s1, h1)" by simp
    from xmlrpc_authenticate_success [OF r'] obtain q
      where q: "xmlrpc_models s1 = Some q" and u: "truthy (uid s1)" by blast
    show "(\<exists>q. xmlrpc_models s1 = Some q \<and> truthy (uid s1)
         \<and> xmlrpc_execute tr model method args (s, h) =
             (case xmlrpc_call tr h1 (ExecuteKw q (db s1) (uid s1) (password s1) model method args) of
                Inl e \<Rightarrow> Inr PNone | Inr v \<Rightarrow> Inr v,
              s1, h1 @ [ExecuteKw q (db s1) (uid s1) (password s1) model method args]))"
      using q u xmlrpc_execute_after_authenticate [OF need r'] xmlrpc_dispatch_request [OF q]
      by simp
  qed
  show "\<exists>ok s1 h1.
         xmlrpc_authenticate tr (s, h) = (Inr ok, s1, h1)
         \<and> (h1 = h \<or> (\<exists>p. h1 = h @ [Authenticate p (db s) (username s) (password s)]))
         \<and> (\<not> ok \<longrightarrow> xmlrpc_execute tr model method args (s, h) = (Inr PNone, s1, h1))
         \<and> (ok \<longrightarrow> (\<exists>q. xmlrpc_models s1 = Some q \<and> truthy (uid s1)
         \<and> xmlrpc_execute tr model method args (s, h) =
             (case xmlrpc_call tr h1 (ExecuteKw q (db s1) (uid s1) (password s1) model method args) of
                Inl e \<Rightarrow> Inr PNone | Inr v \<Rightarrow> Inr v,
              s1, h1 @ [ExecuteKw q (db s1) (uid s1) (password s1) model method args])))"
    using r hist fail succ by blast
next
  assume need: "\<not> truthy (uid s)"
  obtain ok where ok: "fst (jsonrpc_authenticate tr (s, h)) = Inr ok"
    using jsonrpc_authenticate_bool by blast
  obtain s1 h1 where r: "jsonrpc_authenticate tr (s, h) = (Inr ok, s1, h1)"
    using ok by (cases "jsonrpc_authenticate tr (s, h)") auto
  have hist: "h1 = h @ [HttpPost (jsonrpc_url s)
                       (PDict [(''jsonrpc'', PStr ''2.0''),
                               (''method'', PStr ''call''),
                               (''params'', PDict [(''service'', PStr ''common''),
                                                  (''method'', PStr ''login''),
                                                  (''args'', PList [PStr (db s), PStr (username s),
                                                                   PStr (password s)])]),
                               (''id'', PInt 1)])
                       []]"
    using jsonrpc_authenticate_history [of tr s h] r by (simp add: login_payload_def)
  have fail: "\<not> ok \<longrightarrow> jsonrpc_execute tr model method args (s, h) = (Inr PNone, s1, h1)"
    using jsonrpc_execute_after_failed_authenticate [OF need] r by simp
  have succ: "ok \<longrightarrow>
      truthy (uid s1)
         \<and> jsonrpc_execute tr model method args (s, h) =
             try_except (jsonrpc_dispatch tr model method args) PNone (s1, h1)
         \<and> jsonrpc_execute tr model method args (s, h) =
             ((case requests_post tr h1 (HttpPost (jsonrpc_url s1)
                 (PDict [(''jsonrpc'', PStr ''2.0''),
                         (''method'', PStr ''call''),
                         (''params'', PDict [(''service'', PStr ''object''),
                                            (''method'', PStr ''execute_kw''),
                                            (''args'', PList [PStr (db s1), uid s1, PStr (password s1),
                                                             PStr model, PStr method, PList args])]),
                         (''id'', PInt (time_time tr h1))])
                 (case session_id s1 of
                    None \<Rightarrow> []
                  | Some sid \<Rightarrow> if sid \<noteq> [] then [(''session_id'', sid)] else [])) of
                 Inl e \<Rightarrow> Inr PNone
               | Inr response \<Rightarrow>
                   if status_code response = 200
                   then (case json response of
                           Inl e \<Rightarrow> Inr PNone
                         | Inr result \<Rightarrow>
                             (case py_in ''result'' result of
                                Inl e \<Rightarrow> Inr PNone
                              | Inr True \<Rightarrow>
                                  (case py_getitem result ''result'' of
                                     Inl e \<Rightarrow> Inr PNone
                                   | Inr v \<Rightarrow> Inr v)
                              | Inr False \<Rightarrow> Inr PNone))
                   else Inr PNone),
              s1,
              h1 @ [HttpPost (jsonrpc_url s1)
                 (PDict [(''jsonrpc'', PStr ''2.0''),
                         (''method'', PStr ''call''),
                         (''params'', PDict [(''service'', PStr ''object''),
                                            (''method'', PStr ''execute_kw''),
                                            (''args'', PList [PStr (db s1), uid s1, PStr (password s1),
                                                             PStr model, PStr method, PList args])]),
                         (''id'', PInt (time_time tr h1))])
                 (case session_id s1 of
                    None \<Rightarrow> []
                  | Some sid \<Rightarrow> if sid \<noteq> [] then [(''session_id'', sid)] else [])])"
  proof
    assume ok
    with r have r': "jsonrpc_authenticate tr (s, h) = (Inr True, s1, h1)" by simp
    have run: "jsonrpc_execute tr model method args (s, h) =
                 try_except (jsonrpc_dispatch tr model method args) PNone (s1, h1)"
      by (rule jsonrpc_execute_after_authenticate [OF need r'])
    show "truthy (uid s1)
         \<and> jsonrpc_execute tr model method args (s, h) =
             try_except (jsonrpc_dispatch tr model method args) PNone (s1, h1)
         \<and> jsonrpc_execute tr model method args (s, h) =
             ((case requests_post tr h1 (HttpPost (jsonrpc_url s1)
                 (PDict [(''jsonrpc'', PStr ''2.0''),
                         (''method'', PStr ''call''),
                         (''params'', PDict [(''service'', PStr ''object''),
                                            (''method'', PStr ''execute_kw''),
                                            (''args'', PList [PStr (db s1), uid s1, PStr (password s1),
                                                             PStr model, PStr method, PList args])]),
                         (''id'', PInt (time_time tr h1))])
                 (case session_id s1 of
                    None \<Rightarrow> []
                  | Some sid \<Rightarrow> if sid \<noteq> [] then [(''session_id'', sid)] else [])) of
                 Inl e \<Rightarrow> Inr PNone
               | Inr response \<Rightarrow>
                   if status_code response = 200
                   then (case json response of
                           Inl e \<Rightarrow> Inr PNone
                         | Inr result \<Rightarrow>
                             (case py_in ''result'' result of
                                Inl e \<Rightarrow> Inr PNone
                              | Inr True \<Rightarrow>
                                  (case py_getitem result ''result'' of
                                     Inl e \<Rightarrow> Inr PNone
                                   | Inr v \<Rightarrow> Inr v)
                              | Inr False \<Rightarrow> Inr PNone))
                   else Inr PNone),
              s1,
              h1 @ [HttpPost (jsonrpc_url s1)
                 (PDict [(''jsonrpc'', PStr ''2.0''),
                         (''method'', PStr ''call''),
                         (''params'', PDict [(''service'', PStr ''object''),
                                            (''method'', PStr ''execute_kw''),
                                            (''args'', PList [PStr (db s1), uid s1, PStr (password s1),
                                                             PStr model, PStr method, PList args])]),
                         (''id'', PInt (time_time tr h1))])
                 (case session_id s1 of
                    None \<Rightarrow> []
                  | Some sid \<Rightarrow> if sid \<noteq> [] then [(''session_id'', sid)] else [])])"
      using jsonrpc_authenticate_success [OF r'] run
        jsonrpc_dispatch_spelled_out [of tr model "method" args s1 h1]
      by (simp only:)
  qed
  show "\<exists>ok s1 h1.
         jsonrpc_authenticate tr (s, h) = (Inr ok, s1, h1)
         \<and> h1 = h @ [HttpPost (jsonrpc_url s)
                       (PDict [(''jsonrpc'', PStr ''2.0''),
                               (''method'', PStr ''call''),
                               (''params'', PDict [(''service'', PStr ''common''),
                                                  (''method'', PStr ''login''),
                                                  (''args'', PList [PStr (db s), PStr (username s),
                                                                   PStr (password s)])]),
                               (''id'', PInt 1)])
                       []]
         \<and> (\<not> ok \<longrightarrow> jsonrpc_execute tr model method args (s, h) = (Inr PNone, s1, h1))
         \<and> (ok \<longrightarrow> truthy (uid s1)
         \<and> jsonrpc_execute tr model method args (s, h) =
             try_except (jsonrpc_dispatch tr model method args) PNone (s1, h1)
         \<and> jsonrpc_execute tr model method args (s, h) =
             ((case requests_post tr h1 (HttpPost (jsonrpc_url s1)
                 (PDict [(''jsonrpc'', PStr ''2.0''),
                         (''method'', PStr ''call''),
                         (''params'', PDict [(''service'', PStr ''object''),
                                            (''method'', PStr ''execute_kw''),
                                            (''args'', PList [PStr (db s1), uid s1, PStr (password s1),
                                                             PStr model, PStr method, PList args])]),
                         (''id'', PInt (time_time tr h1))])
                 (case session_id s1 of
                    None \<Rightarrow> []
                  | Some sid \<Rightarrow> if sid \<noteq> [] then [(''session_id'', sid)] else [])) of
                 Inl e \<Rightarrow> Inr PNone
               | Inr response \<Rightarrow>
                   if status_code response = 200
                   then (case json response of
                           Inl e \<Rightarrow> Inr PNone
                         | Inr result \<Rightarrow>
                             (case py_in ''result'' result of
                                Inl e \<Rightarrow> Inr PNone
                              | Inr True \<Rightarrow>
                                  (case py_getitem result ''result'' of
                                     Inl e \<Rightarrow> Inr PNone
                                   | Inr v \<Rightarrow> Inr v)
                              | Inr False \<Rightarrow> Inr PNone))
                   else Inr PNone),
              s1,
              h1 @ [HttpPost (jsonrpc_url s1)
                 (PDict [(''jsonrpc'', PStr ''2.0''),
                         (''method'', PStr ''call''),
                         (''params'', PDict [(''service'', PStr ''object''),
                                            (''method'', PStr ''execute_kw''),
                                            (''args'', PList [PStr (db s1), uid s1, PStr (password s1),
                                                             PStr model, PStr method, PList args])]),
                         (''id'', PInt (time_time tr h1))])
                 (case session_id s1 of
                    None \<Rightarrow> []
                  | Some sid \<Rightarrow> if sid \<noteq> [] then [(''session_id'', sid)] else [])]))"
    using r hist fail succ by blast
qed

theorem execute_authenticates_implicitly_witness:
  "\<not> truthy (uid demo_session)
   \<and> xmlrpc_models demo_session = None
   \<and> fst (xmlrpc_authenticate refusing (demo_session, [])) = Inr False
   \<and> xmlrpc_execute refusing ''crm.lead'' ''create'' [PList [PDict []]] (demo_session, []) =
       (Inr PNone, snd (xmlrpc_authenticate refusing (demo_session, [])))
   \<and> fst (xmlrpc_authenticate serving (demo_session, [])) = Inr True
   \<and> xmlrpc_execute serving ''crm.lead'' ''create'' [PList [PDict []]] (demo_session, []) =
       (Inr (PInt 1),
        fst (snd (xmlrpc_authenticate serving (demo_session, []))),
        snd (snd (xmlrpc_authenticate serving (demo_session, []))) @
          [ExecuteKw (ServerProxy ''http://localhost:8069/xmlrpc/2/object'') ''odoo'' (PInt 2) ''admin''
             ''crm.lead'' ''create'' [PList [PDict []]]])
   \<and> fst (jsonrpc_authenticate refusing (demo_session, [])) = Inr False
   \<and> jsonrpc_execute refusing ''crm.lead'' ''create'' [PList [PDict []]] (demo_session, []) =
       (Inr PNone, snd (jsonrpc_authenticate refusing (demo_session, [])))
   \<and> fst (jsonrpc_authenticate serving (demo_session, [])) = Inr True
   \<and> fst (jsonrpc_execute serving ''crm.lead'' ''create'' [PList [PDict []]] (demo_session, [])) = Inr (PInt 7)"
  using execute_authenticates_implicitly
          [of demo_session refusing "[]" "''crm.lead''" "''create''" "[PList [PDict []]]"]
        execute_authenticates_implicitly
          [of demo_session serving "[]" "''crm.lead''" "''create''" "[PList [PDict []]]"]
  by (simp add: eval_defs refusing_def serving_def)

section \<open>Search operations on a failed execute\<close>

lemma search_leads_null:
  assumes "fst (exec ''crm.lead'' ''search'' [domain, PDict (search_kwargs offset limit order)] st) = Inr PNone"
  shows "fst (search_leads_body exec domain offset limit order st) = Inl TypeError
         \<and> fst (search_leads exec domain offset limit order st) = Inr (PList [])"
  using assms
  by (auto simp: search_leads_def search_leads_body_def counted_def try_except_def split: prod.splits sum.splits)

lemma search_read_leads_null:
  assumes "fst (exec ''crm.lead'' ''search_read'' [domain, PDict (search_read_kwargs field_names offset limit order)] st) = Inr PNone"
  shows "fst (search_read_leads_body exec domain field_names offset limit order st) = Inl TypeError
         \<and> fst (search_read_leads exec domain field_names offset limit order st) = Inr (PList [])"
  using assms
  by (auto simp: search_read_leads_def search_read_leads_body_def counted_def try_except_def split: prod.splits sum.splits)

lemma search_leads_never_null: "fst (search_leads exec domain offset limit order st) \<noteq> Inr PNone"
  by (auto simp: search_leads_def search_leads_body_def counted_def try_except_def split: prod.splits sum.splits)

lemma search_read_leads_never_null: "fst (search_read_leads exec domain field_names offset limit order st) \<noteq> Inr PNone"
  by (auto simp: search_read_leads_def search_read_leads_body_def counted_def try_except_def split: prod.splits sum.splits)

text \<open>
  Claim C9. When the execute under a search or search-read operation returns the null
  value, counting the result raises a TypeError inside the guarded block, and the
  operation returns the empty list. No search or search-read operation ever returns
  null.
\<close>

theorem search_null_result_gives_empty_list:
  "(fst (xmlrpc_execute tr ''crm.lead'' ''search'' [domain, PDict (search_kwargs offset limit order)] st) = Inr PNone
      \<longrightarrow> fst (search_leads_body (xmlrpc_execute tr) domain offset limit order st) = Inl TypeError
          \<and> fst (search_leads_xmlrpc tr domain offset limit order st) = Inr (PList []))
   \<and> (fst (jsonrpc_execute tr ''crm.lead'' ''search'' [domain, PDict (search_kwargs offset limit order)] st) = Inr PNone
      \<longrightarrow> fst (search_leads_body (jsonrpc_execute tr) domain offset limit order st) = Inl TypeError
          \<and> fst (search_leads_jsonrpc tr domain offset limit order st) = Inr (PList []))
   \<and> (fst (xmlrpc_execute tr ''crm.lead'' ''search_read''
              [domain, PDict (search_read_kwargs field_names offset limit order)] st) = Inr PNone
      \<longrightarrow> fst (search_read_leads_body (xmlrpc_execute tr) domain field_names offset limit order st) = Inl TypeError
          \<and> fst (search_read_leads_xmlrpc tr domain field_names offset limit order st) = Inr (PList []))
   \<and> (fst (jsonrpc_execute tr ''crm.lead'' ''search_read''
              [domain, PDict (search_read_kwargs field_names offset limit order)] st) = Inr PNone
      \<longrightarrow> fst (search_read_leads_body (jsonrpc_execute tr) domain field_names offset limit order st) = Inl TypeError
          \<and> fst (search_read_leads_jsonrpc tr domain field_names offset limit order st) = Inr (PList []))
   \<and> fst (search_leads_xmlrpc tr domain offset limit order st) \<noteq> Inr PNone
   \<and> fst (search_leads_jsonrpc tr domain offset limit order st) \<noteq> Inr PNone
   \<and> fst (search_read_leads_xmlrpc tr domain field_names offset limit order st) \<noteq> Inr PNone
   \<and> fst (search_read_leads_jsonrpc tr domain field_names offset limit order st) \<noteq> Inr PNone"
  unfolding search_leads_xmlrpc_def search_leads_jsonrpc_def
    search_read_leads_xmlrpc_def search_read_leads_jsonrpc_def
  by (simp add: search_leads_null search_read_leads_null search_leads_never_null
      search_read_leads_never_null)

theorem search_null_result_gives_empty_list_witness:
  "fst (xmlrpc_execute refusing ''crm.lead'' ''search''
          [PList [], PDict (search_kwargs (PInt 0) (PInt 5) (PStr ''id desc''))] (demo_session, [])) = Inr PNone
   \<and> fst (search_leads_xmlrpc refusing (PList []) (PInt 0) (PInt 5) (PStr ''id desc'') (demo_session, [])) = Inr (PList [])
   \<and> fst (jsonrpc_execute refusing ''crm.lead'' ''search''
          [PList [], PDict (search_kwargs (PInt 0) (PInt 5) (PStr ''id desc''))] (demo_session, [])) = Inr PNone
   \<and> fst (search_leads_jsonrpc refusing (PList []) (PInt 0) (PInt 5) (PStr ''id desc'') (demo_session, [])) = Inr (PList [])
   \<and> fst (xmlrpc_execute refusing ''crm.lead'' ''search_read''
          [PList [], PDict (search_read_kwargs PNone (PInt 0) (PInt 5) (PStr ''id desc''))] (demo_session, [])) = Inr PNone
   \<and> fst (search_read_leads_xmlrpc refusing (PList []) PNone (PInt 0) (PInt 5) (PStr ''id desc'') (demo_session, [])) = Inr (PList [])
   \<and> fst (jsonrpc_execute refusing ''crm.lead'' ''search_read''
          [PList [], PDict (search_read_kwargs PNone (PInt 0) (PInt 5) (PStr ''id desc''))] (demo_session, [])) = Inr PNone
   \<and> fst (search_read_leads_jsonrpc refusing (PList []) PNone (PInt 0) (PInt 5) (PStr ''id desc'') (demo_session, [])) = Inr (PList [])"
  using search_null_result_gives_empty_list
          [of refusing "PList []" "PInt 0" "PInt 5" "PStr ''id desc''" "(demo_session, [])" PNone]
  by (simp add: refusing_xmlrpc_execute refusing_jsonrpc_execute)

section \<open>The frame of the operations\<close>

text \<open>
  Claim C10. Whatever an operation returns, it leaves \<open>url\<close>, \<open>db\<close>, \<open>username\<close> and
  \<open>password\<close> (and \<open>jsonrpc_url\<close>) of the session as it found them, so after any sequence
  of operations they are what the constructor made of its arguments. The fields left
  over are the user id, the session token and the two XML-RPC proxies; and the session
  an operation leaves is the one it found after some runs of the two authenticate
  operations (none, for an operation that needs no login), which is what \<open>auth_reach\<close>
  says: nothing but authenticate, called directly or by execute, writes to the session.
\<close>

theorem connection_fields_are_never_changed:
  "unchanged_fields s (fst (run_op tr op (s, h)))
   \<and> auth_reach tr s (fst (run_op tr op (s, h)))
   \<and> url (fst (run_ops tr ops (OdooAPI_init u d un pw, h))) = rstrip_slash u
   \<and> db (fst (run_ops tr ops (OdooAPI_init u d un pw, h))) = d
   \<and> username (fst (run_ops tr ops (OdooAPI_init u d un pw, h))) = un
   \<and> password (fst (run_ops tr ops (OdooAPI_init u d un pw, h))) = pw
   \<and> jsonrpc_url (fst (run_ops tr ops (OdooAPI_init u d un pw, h))) = rstrip_slash u @ ''/jsonrpc''
   \<and> auth_reach tr (OdooAPI_init u d un pw) (fst (run_ops tr ops (OdooAPI_init u d un pw, h)))"
proof -
  have one: "auth_reach tr s (fst (run_op tr op (s, h)))"
    using run_op_auth_reach [of tr "(s, h)" op] by simp
  have many: "auth_reach tr (OdooAPI_init u d un pw) (fst (run_ops tr ops (OdooAPI_init u d un pw, h)))"
    using run_ops_auth_reach [of tr "(OdooAPI_init u d un pw, h)" ops] by simp
  from auth_reach_frame [OF one] auth_reach_frame [OF many] one many
  show ?thesis
    by (simp add: unchanged_fields_def OdooAPI_init_def)
qed

theorem connection_fields_are_never_changed_witness:
  "fst (run_ops serving
          [Create_lead_xmlrpc (PDict [(''name'', PStr ''Test Lead'')]),
           Jsonrpc_authenticate,
           Delete_leads_batch_jsonrpc [1, 2]]
          (OdooAPI_init ''http://localhost:8069/'' ''odoo'' ''admin'' ''admin'', [])) =
     \<lparr> url = ''http://localhost:8069'', db = ''odoo'', username = ''admin'', password = ''admin'',
       uid = PInt 2,
       xmlrpc_common = Some (ServerProxy ''http://localhost:8069/xmlrpc/2/common''),
       xmlrpc_models = Some (ServerProxy ''http://localhost:8069/xmlrpc/2/object''),
       jsonrpc_url = ''http://localhost:8069/jsonrpc'', session_id = Some ''abc'' \<rparr>
   \<and> auth_reach serving (OdooAPI_init ''http://localhost:8069/'' ''odoo'' ''admin'' ''admin'')
        (fst (run_ops serving
          [Create_lead_xmlrpc (PDict [(''name'', PStr ''Test Lead'')]),
           Jsonrpc_authenticate,
           Delete_leads_batch_jsonrpc [1, 2]]
          (OdooAPI_init ''http://localhost:8069/'' ''odoo'' ''admin'' ''admin'', [])))"
  using connection_fields_are_never_changed
    [of demo_session serving Xmlrpc_authenticate "[]"
        "[Create_lead_xmlrpc (PDict [(''name'', PStr ''Test Lead'')]), Jsonrpc_authenticate,
          Delete_leads_batch_jsonrpc [1, 2]]"
        "''http://localhost:8069/''" "''odoo''" "''admin''" "''admin''"]
  by (simp add: op_defs eval_defs serving_def)

end
